theory Spec2Isabelle
  imports Complex_Main "HOL-Library.Word"
begin

unbundle bit_operations_syntax

section \<open>Values of the host language\<close>

text \<open>
  A JavaScript number is a binary64 value: a finite value, or one of the three non-finite
  ones. Audio samples, clock readings and buffer durations are finite; they are modelled as
  \<^typ>\<open>real\<close>. Every arithmetic step that \<open>createBlob\<close> and \<open>decodeAudioData\<close>
  take on a finite sample is exact in binary floating point (scaling by \<open>2 ^ 15\<close>,
  truncation, division of a 16-bit integer by \<open>2 ^ 15\<close>), so the real-number model computes
  the same values as the code.
\<close>

datatype number = Num real | NaN | PosInfinity | NegInfinity

fun isFinite :: "number \<Rightarrow> bool" where
  "isFinite (Num r) = True"
| "isFinite NaN = False"
| "isFinite PosInfinity = False"
| "isFinite NegInfinity = False"

datatype js_value =
    JUndefined
  | JNull
  | JBool bool
  | JNumber number
  | JString string
  | JObject nat

text \<open>Truthiness, as the operator \<open>||\<close> and \<open>if\<close> test it.\<close>

fun truthy :: "js_value \<Rightarrow> bool" where
  "truthy JUndefined = False"
| "truthy JNull = False"
| "truthy (JBool b) = b"
| "truthy (JNumber (Num r)) = (r \<noteq> 0)"
| "truthy (JNumber NaN) = False"
| "truthy (JNumber PosInfinity) = True"
| "truthy (JNumber NegInfinity) = True"
| "truthy (JString s) = (s \<noteq> [])"
| "truthy (JObject n) = True"

datatype js_error =
    RangeError
  | TypeError
  | InvalidCharacterError
  | NotSupportedError
  | InvalidStateError
  | NotAllowedError
  | AbortError
  | OtherError string

section \<open>Audio frame codec (LiveVoiceAgent.tsx, lines 46-80)\<close>

type_synonym byte = "8 word"
type_synonym int16 = "16 word"

subsection \<open>The platform's base64 functions\<close>

text \<open>
  \<open>btoa\<close> and \<open>atob\<close> are the browser's functions (forgiving-base64 of the WHATWG Infra
  standard). A binary string is a string whose code units are below 256; it is modelled
  as the list of those code units.
\<close>

type_synonym binary_string = "byte list"

definition b64_alphabet :: string where
  "b64_alphabet = ''ABCDEFGHIJKLMNOPQRSTUVWXYZabcdefghijklmnopqrstuvwxyz0123456789+/''"

definition sextet :: "nat \<Rightarrow> char" where
  "sextet n = b64_alphabet ! (n mod 64)"

fun btoa :: "binary_string \<Rightarrow> string" where
  "btoa (a # b # c # rest) =
     (let n = unat a * 65536 + unat b * 256 + unat c
      in sextet (n div 262144) # sextet (n div 4096) # sextet (n div 64) # sextet n # btoa rest)"
| "btoa [a, b] =
     (let n = unat a * 1024 + unat b * 4
      in [sextet (n div 4096), sextet (n div 64), sextet n, CHR ''=''])"
| "btoa [a] =
     (let n = unat a * 16
      in [sextet (n div 64), sextet n, CHR ''='', CHR ''=''])"
| "btoa [] = []"

fun index_of :: "'a list \<Rightarrow> 'a \<Rightarrow> nat option" where
  "index_of [] x = None"
| "index_of (y # ys) x = (if x = y then Some 0 else map_option Suc (index_of ys x))"

definition ascii_whitespace :: "char \<Rightarrow> bool" where
  "ascii_whitespace c = (c \<in> set [CHR 0x09, CHR 0x0A, CHR 0x0C, CHR 0x0D, CHR 0x20])"

definition strip_padding :: "string \<Rightarrow> string" where
  "strip_padding s =
     (if length s mod 4 = 0 \<and> s \<noteq> [] \<and> last s = CHR ''='' then
        (if last (butlast s) = CHR ''='' then butlast (butlast s) else butlast s)
      else s)"

fun sextets_to_bytes :: "nat list \<Rightarrow> byte list" where
  "sextets_to_bytes (a # b # c # d # rest) =
     (let n = a * 262144 + b * 4096 + c * 64 + d
      in of_nat (n div 65536) # of_nat (n div 256) # of_nat n # sextets_to_bytes rest)"
| "sextets_to_bytes [a, b, c] =
     (let n = a * 4096 + b * 64 + c
      in [of_nat (n div 1024), of_nat (n div 4)])"
| "sextets_to_bytes [a, b] = [of_nat ((a * 64 + b) div 16)]"
| "sextets_to_bytes [a] = []"
| "sextets_to_bytes [] = []"

text \<open>\<open>None\<close> is the \<open>InvalidCharacterError\<close> that \<open>atob\<close> throws.\<close>

definition atob :: "string \<Rightarrow> binary_string option" where
  "atob str =
     (let s = strip_padding (filter (\<lambda>c. \<not> ascii_whitespace c) str)
      in if length s mod 4 = 1 then None
         else map_option sextets_to_bytes (those (map (index_of b64_alphabet) s)))"

subsection \<open>Typed-array conversions\<close>

text \<open>
  Storing a number into an \<open>Int16Array\<close> applies \<open>ToInt16\<close>: the value is truncated towards
  zero and reduced modulo \<open>2 ^ 16\<close> into the signed range.
\<close>

definition trunc :: "real \<Rightarrow> int" where
  "trunc x = (if 0 \<le> x then \<lfloor>x\<rfloor> else \<lceil>x\<rceil>)"

definition ToInt16 :: "real \<Rightarrow> int16" where
  "ToInt16 x = word_of_int (trunc x)"

text \<open>
  \<open>new Uint8Array(int16.buffer)\<close> and \<open>new Int16Array(data.buffer)\<close> reinterpret the same
  memory in the byte order of the host, which is little-endian on every platform that runs
  the component. The second constructor throws a \<open>RangeError\<close> when the byte length is odd.
\<close>

fun uint8_view :: "int16 list \<Rightarrow> byte list" where
  "uint8_view [] = []"
| "uint8_view (w # ws) = ucast w # ucast (drop_bit 8 w) # uint8_view ws"

fun int16_view :: "byte list \<Rightarrow> js_error + int16 list" where
  "int16_view [] = Inr []"
| "int16_view [lo] = Inl RangeError"
| "int16_view (lo # hi # rest) =
     (case int16_view rest of
        Inl e \<Rightarrow> Inl e
      | Inr ws \<Rightarrow> Inr ((ucast lo OR push_bit 8 (ucast hi)) # ws))"

subsection \<open>encode, createBlob, decode, decodeAudioData\<close>

text \<open>\<open>encode\<close>: the loop appends \<open>String.fromCharCode(bytes[i])\<close> for every index.\<close>

fun encode_loop :: "binary_string \<Rightarrow> byte list \<Rightarrow> binary_string" where
  "encode_loop binary [] = binary"
| "encode_loop binary (b # bytes) = encode_loop (binary @ [b]) bytes"

definition encode :: "byte list \<Rightarrow> string" where
  "encode bytes = btoa (encode_loop [] bytes)"

record blob =
  blob_data :: string
  mimeType :: string

text \<open>\<open>createBlob\<close>: \<open>int16[i] = data[i] * 32768\<close> for every index.\<close>

definition quantize :: "real \<Rightarrow> int16" where
  "quantize x = ToInt16 (x * 32768)"

definition createBlob :: "real list \<Rightarrow> blob" where
  "createBlob data =
     \<lparr> blob_data = encode (uint8_view (map quantize data)),
       mimeType = ''audio/pcm;rate=16000'' \<rparr>"

text \<open>\<open>decode\<close>: \<open>bytes[i] = binaryString.charCodeAt(i)\<close> for every index.\<close>

definition decode :: "string \<Rightarrow> js_error + byte list" where
  "decode base64 =
     (case atob base64 of
        None \<Rightarrow> Inl InvalidCharacterError
      | Some binaryString \<Rightarrow> Inr (map (\<lambda>c. c) binaryString))"

record audio_buffer =
  numberOfChannels :: nat
  sampleRate :: nat
  channelData :: "real list list"

definition frames :: "audio_buffer \<Rightarrow> nat" where
  "frames b = (case channelData b of [] \<Rightarrow> 0 | c # cs \<Rightarrow> length c)"

definition duration :: "audio_buffer \<Rightarrow> real" where
  "duration b = real (frames b) / real (sampleRate b)"

text \<open>
  \<open>decodeAudioData\<close>. \<open>frameCount\<close> is \<open>dataInt16.length / numChannels\<close>, converted to an
  unsigned integer by \<open>createBuffer\<close>, which throws \<open>NotSupportedError\<close> for no channel,
  no frame or a zero sample rate. Sample \<open>i\<close> of channel \<open>ch\<close> is
  \<open>dataInt16[i * numChannels + ch] / 32768.0\<close>.
\<close>

definition decodeAudioData :: "byte list \<Rightarrow> nat \<Rightarrow> nat \<Rightarrow> js_error + audio_buffer" where
  "decodeAudioData data rate numChannels =
     (case int16_view data of
        Inl e \<Rightarrow> Inl e
      | Inr dataInt16 \<Rightarrow>
          (let frameCount = (if numChannels = 0 then 0 else length dataInt16 div numChannels)
           in if numChannels = 0 \<or> frameCount = 0 \<or> rate = 0 then Inl NotSupportedError
              else Inr \<lparr> numberOfChannels = numChannels,
                         sampleRate = rate,
                         channelData =
                           map (\<lambda>ch. map (\<lambda>i. real_of_int (sint (dataInt16 ! (i * numChannels + ch))) / 32768)
                                          [0 ..< frameCount])
                               [0 ..< numChannels] \<rparr>))"

text \<open>
  The codec round trip: a vector of samples is encoded by \<open>createBlob\<close>, the
  payload is decoded by \<open>decode\<close> and \<open>decodeAudioData\<close> with one channel, and the samples
  of that channel are read back.
\<close>

definition round_trip :: "real list \<Rightarrow> nat \<Rightarrow> js_error + real list" where
  "round_trip data rate =
     (case decode (blob_data (createBlob data)) of
        Inl e \<Rightarrow> Inl e
      | Inr bytes \<Rightarrow>
          (case decodeAudioData bytes rate 1 of
             Inl e \<Rightarrow> Inl e
           | Inr buffer \<Rightarrow> Inr (channelData buffer ! 0)))"

text \<open>The quantiser that the specification describes: rounded, scaled by 32767, clamped.\<close>

definition spec_quantize :: "real \<Rightarrow> int" where
  "spec_quantize x = max (- 32768) (min 32767 (round (x * 32767)))"

text \<open>
  For the proofs about \<open>btoa\<close>: the 6-bit values that \<open>btoa\<close> writes, without the padding,
  and the padding by itself.
\<close>

fun sextets_of :: "byte list \<Rightarrow> nat list" where
  "sextets_of (a # b # c # rest) =
     (let n = unat a * 65536 + unat b * 256 + unat c
      in n div 262144 mod 64 # n div 4096 mod 64 # n div 64 mod 64 # n mod 64 # sextets_of rest)"
| "sextets_of [a, b] =
     (let n = unat a * 1024 + unat b * 4
      in [n div 4096 mod 64, n div 64 mod 64, n mod 64])"
| "sextets_of [a] = (let n = unat a * 16 in [n div 64 mod 64, n mod 64])"
| "sextets_of [] = []"

fun padding :: "byte list \<Rightarrow> string" where
  "padding (a # b # c # rest) = padding rest"
| "padding [a, b] = ''=''"
| "padding [a] = ''==''"
| "padding [] = []"


section \<open>Live voice session (LiveVoiceAgent.tsx, lines 133-332)\<close>

subsection \<open>State of the component\<close>

datatype status = Idle | Connecting | Connected | Error

text \<open>An \<open>AudioBufferSourceNode\<close> with the buffer assigned to it.\<close>

record source_node =
  node_id :: nat
  node_buffer :: audio_buffer

text \<open>
  What the component does to its collaborators (callbacks of the caller, devices, the remote
  session) is recorded in a trace, in the order in which the calls are made.
\<close>

datatype effect =
    OnAIResponse string
  | OnUserTranscript string
  | OnDeactivate
  | SetTimeout_onDeactivate nat
  | ConsoleError string
  | UnhandledRejection js_error
  | GetUserMedia
  | NewAudioContext nat nat
  | ContextResume nat
  | LiveConnect nat string
  | NewScriptProcessor nat
  | SendRealtimeInput blob
  | SessionClose nat
  | TrackStop nat
  | ProcessorDisconnect nat
  | ContextClose nat
  | SourceStart nat real
  | SourceStop nat
  | CallOnToolCall string string
  | SendToolResponse string string js_value

text \<open>
  The effect of lines 161-332 declares \<open>let mounted = true\<close> each time it runs, and the
  \<open>cleanup\<close>, the \<open>startSession\<close> and the session callbacks created by that run close over
  that variable. The runs are numbered in the order in which they happen; \<open>mounted\<close> holds
  the variable of each run, and every function that reads or writes \<open>mounted\<close> takes the
  number of the run it belongs to. The references (\<open>useRef\<close>) are shared by all runs.

  A call of \<open>startSession\<close> that is waiting at one of its \<open>await\<close>s is kept with its run and
  the locals it has bound so far: the mode, and the stream and the two contexts once they
  exist.
\<close>

datatype call_frame =
    AwaitUserMedia nat string
  | AwaitInputResume nat string nat nat nat
  | AwaitOutputResume nat string nat nat nat

record agent =
  mounted :: "bool list"
  status :: status
  sessionRef :: "nat option"
  isConnectingRef :: bool
  inputContextRef :: "nat option"
  outputContextRef :: "nat option"
  streamRef :: "nat option"
  processorRef :: "nat option"
  nextStartTimeRef :: real
  audioQueueRef :: "source_node list"
  suspended :: "call_frame list"
  next_id :: nat
  trace :: "effect list"

definition initial_agent :: agent where
  "initial_agent =
     \<lparr> mounted = [], status = Idle, sessionRef = None, isConnectingRef = False,
       inputContextRef = None, outputContextRef = None, streamRef = None,
       processorRef = None, nextStartTimeRef = 0, audioQueueRef = [],
       suspended = [], next_id = 0, trace = [] \<rparr>"

definition emit :: "effect \<Rightarrow> agent \<Rightarrow> agent" where
  "emit e s = s\<lparr>trace := trace s @ [e]\<rparr>"

definition is_mounted :: "nat \<Rightarrow> agent \<Rightarrow> bool" where
  "is_mounted r s = (r < length (mounted s) \<and> mounted s ! r)"

subsection \<open>cleanup (lines 164-190)\<close>

text \<open>\<open>audioQueueRef.current.forEach(source => source.stop())\<close>\<close>

fun stop_each :: "source_node list \<Rightarrow> agent \<Rightarrow> agent" where
  "stop_each [] s = s"
| "stop_each (source # rest) s = stop_each rest (emit (SourceStop (node_id source)) s)"

text \<open>
  The blocks of \<open>cleanup\<close>, one per reference. \<open>SessionClose p\<close> stands for
  \<open>sessionRef.current.then(s => s.close()).catch(() => {})\<close>: the session is closed once
  it exists, and a failure is discarded. \<open>TrackStop m\<close> stands for stopping every track
  of the stream \<open>m\<close>.
\<close>

definition close_session :: "agent \<Rightarrow> agent" where
  "close_session s =
     (case sessionRef s of None \<Rightarrow> s
      | Some p \<Rightarrow> (emit (SessionClose p) s)\<lparr>sessionRef := None\<rparr>)"

definition stop_stream :: "agent \<Rightarrow> agent" where
  "stop_stream s =
     (case streamRef s of None \<Rightarrow> s
      | Some m \<Rightarrow> (emit (TrackStop m) s)\<lparr>streamRef := None\<rparr>)"

definition disconnect_processor :: "agent \<Rightarrow> agent" where
  "disconnect_processor s =
     (case processorRef s of None \<Rightarrow> s
      | Some n \<Rightarrow> (emit (ProcessorDisconnect n) s)\<lparr>processorRef := None\<rparr>)"

definition close_input_context :: "agent \<Rightarrow> agent" where
  "close_input_context s =
     (case inputContextRef s of None \<Rightarrow> s
      | Some c \<Rightarrow> (emit (ContextClose c) s)\<lparr>inputContextRef := None\<rparr>)"

definition close_output_context :: "agent \<Rightarrow> agent" where
  "close_output_context s =
     (case outputContextRef s of None \<Rightarrow> s
      | Some c \<Rightarrow> (emit (ContextClose c) s)\<lparr>outputContextRef := None\<rparr>)"

definition stop_queue :: "agent \<Rightarrow> agent" where
  "stop_queue s = (stop_each (audioQueueRef s) s)\<lparr>audioQueueRef := []\<rparr>"

definition cleanup :: "nat \<Rightarrow> agent \<Rightarrow> agent" where
  "cleanup r s0 =
     (let s1 = s0\<lparr>mounted := (mounted s0)[r := False], isConnectingRef := False\<rparr>;
          s2 = close_session s1;
          s3 = stop_stream s2;
          s4 = disconnect_processor s3;
          s5 = close_input_context s4;
          s6 = close_output_context s5;
          s7 = stop_queue s6
      in s7\<lparr>status := Idle\<rparr>)"

subsection \<open>startSession (lines 192-323)\<close>

text \<open>
  \<open>startSession\<close> up to its first \<open>await\<close>. \<open>api_key\<close> is \<open>process.env.API_KEY\<close>, empty
  when it is not configured. The call then waits for \<open>getUserMedia\<close>.
\<close>

definition startSession :: "string \<Rightarrow> string \<Rightarrow> nat \<Rightarrow> agent \<Rightarrow> agent" where
  "startSession api_key mode r s =
     (if api_key = [] then emit OnDeactivate (emit (OnAIResponse ''Error: No API Key'') s)
      else if isConnectingRef s then s
      else (emit GetUserMedia
              (emit (OnAIResponse (''Connecting ('' @ mode @ '')...''))
                 (s\<lparr>isConnectingRef := True, status := Connecting\<rparr>)))
           \<lparr>suspended := suspended s @ [AwaitUserMedia r mode]\<rparr>)"

text \<open>The \<open>catch\<close> and \<open>finally\<close> blocks, entered when an awaited promise is rejected.\<close>

definition setup_failed :: "nat \<Rightarrow> agent \<Rightarrow> agent" where
  "setup_failed r s =
     (let s1 = emit (ConsoleError ''Setup Error:'') s;
          s2 = (if is_mounted r s1
                then emit (SetTimeout_onDeactivate 3000)
                       (emit (OnAIResponse ''Network Error'') (s1\<lparr>status := Error\<rparr>))
                else s1)
      in s2\<lparr>isConnectingRef := False\<rparr>)"

text \<open>
  \<open>ai.live.connect\<close> is called and its promise stored without being awaited; the
  \<open>finally\<close> block follows at once.
\<close>

definition connect_session :: "string \<Rightarrow> agent \<Rightarrow> agent" where
  "connect_session mode s =
     (let p = next_id s;
          s1 = (emit (LiveConnect p mode) s)\<lparr>next_id := Suc p\<rparr>;
          s2 = s1\<lparr>sessionRef := Some p\<rparr>
      in s2\<lparr>isConnectingRef := False\<rparr>)"

definition resume_output :: "bool \<Rightarrow> nat \<Rightarrow> string \<Rightarrow> nat \<Rightarrow> nat \<Rightarrow> nat \<Rightarrow> agent \<Rightarrow> agent" where
  "resume_output output_suspended r mode m ic oc s =
     (if output_suspended
      then (emit (ContextResume oc) s)\<lparr>suspended := suspended s @ [AwaitOutputResume r mode m ic oc]\<rparr>
      else connect_session mode s)"

definition resume_input :: "bool \<Rightarrow> bool \<Rightarrow> nat \<Rightarrow> string \<Rightarrow> nat \<Rightarrow> nat \<Rightarrow> nat \<Rightarrow> agent \<Rightarrow> agent" where
  "resume_input input_suspended output_suspended r mode m ic oc s =
     (if input_suspended
      then (emit (ContextResume ic) s)\<lparr>suspended := suspended s @ [AwaitInputResume r mode m ic oc]\<rparr>
      else resume_output output_suspended r mode m ic oc s)"

text \<open>The lines after \<open>getUserMedia\<close> has delivered the stream \<open>m\<close>.\<close>

definition media_granted :: "bool \<Rightarrow> bool \<Rightarrow> nat \<Rightarrow> string \<Rightarrow> agent \<Rightarrow> agent" where
  "media_granted input_suspended output_suspended r mode s =
     (let m = next_id s;
          ic = Suc m;
          oc = Suc (Suc m);
          s1 = s\<lparr>streamRef := Some m, next_id := Suc (Suc (Suc m))\<rparr>;
          s2 = (emit (NewAudioContext ic 16000) s1)\<lparr>inputContextRef := Some ic\<rparr>;
          s3 = (emit (NewAudioContext oc 24000) s2)\<lparr>outputContextRef := Some oc\<rparr>
      in resume_input input_suspended output_suspended r mode m ic oc s3)"

datatype settled = Fulfilled | Rejected js_error

text \<open>
  The environment settles the promise that the \<open>i\<close>-th waiting call awaits; the call runs
  to its next \<open>await\<close> or to its end. The two flags say whether the platform hands out
  the contexts in state \<open>suspended\<close>.
\<close>

definition settle :: "nat \<Rightarrow> settled \<Rightarrow> bool \<Rightarrow> bool \<Rightarrow> agent \<Rightarrow> agent" where
  "settle i outcome input_suspended output_suspended s =
     (if i < length (suspended s) then
        (let frame = suspended s ! i;
             s1 = s\<lparr>suspended := take i (suspended s) @ drop (Suc i) (suspended s)\<rparr>
         in case frame of
              AwaitUserMedia r mode \<Rightarrow>
                (case outcome of
                   Rejected e \<Rightarrow> setup_failed r s1
                 | Fulfilled \<Rightarrow> media_granted input_suspended output_suspended r mode s1)
            | AwaitInputResume r mode m ic oc \<Rightarrow>
                (case outcome of
                   Rejected e \<Rightarrow> setup_failed r s1
                 | Fulfilled \<Rightarrow> resume_output output_suspended r mode m ic oc s1)
            | AwaitOutputResume r mode m ic oc \<Rightarrow>
                (case outcome of
                   Rejected e \<Rightarrow> setup_failed r s1
                 | Fulfilled \<Rightarrow> connect_session mode s1))
      else s)"

text \<open>
  The body of the effect (lines 161-332): a new \<open>mounted\<close>, then \<open>startSession\<close> when
  \<open>isActive\<close> is set and \<open>cleanup\<close> otherwise. When \<open>isActive\<close> or \<open>mode\<close> changes, React
  first runs the \<open>cleanup\<close> returned by the previous run, then the body again.
\<close>

definition run_effect :: "string \<Rightarrow> bool \<Rightarrow> string \<Rightarrow> agent \<Rightarrow> agent" where
  "run_effect api_key isActive mode s =
     (let r = length (mounted s);
          s1 = s\<lparr>mounted := mounted s @ [True]\<rparr>
      in if isActive then startSession api_key mode r s1 else cleanup r s1)"

definition rerun_effect :: "string \<Rightarrow> bool \<Rightarrow> string \<Rightarrow> agent \<Rightarrow> agent" where
  "rerun_effect api_key isActive mode s =
     (if mounted s = [] then run_effect api_key isActive mode s
      else run_effect api_key isActive mode (cleanup (length (mounted s) - 1) s))"

subsection \<open>Session callbacks (lines 232-307)\<close>

definition onopen :: "nat \<Rightarrow> agent \<Rightarrow> agent" where
  "onopen r s =
     (if \<not> is_mounted r s then s
      else (let s1 = emit (OnAIResponse ''VS FM Live'') (s\<lparr>status := Connected\<rparr>);
                n = next_id s1
            in (emit (NewScriptProcessor n) s1)\<lparr>processorRef := Some n, next_id := Suc n\<rparr>))"

definition onaudioprocess :: "nat \<Rightarrow> real list \<Rightarrow> agent \<Rightarrow> agent" where
  "onaudioprocess r inputData s =
     (if \<not> is_mounted r s then s else emit (SendRealtimeInput (createBlob inputData)) s)"

text \<open>
  Lines 265-274: the accumulator is raised to \<open>ctx.currentTime\<close> if it lies behind, the
  source is started at the accumulator (\<open>SourceStart\<close> is the call
  \<open>source.start(nextStartTimeRef.current)\<close>), and the accumulator advances by the
  duration of the buffer.
\<close>

definition schedule_buffer :: "real \<Rightarrow> audio_buffer \<Rightarrow> agent \<Rightarrow> agent" where
  "schedule_buffer currentTime buffer s =
     (let s1 = s\<lparr>nextStartTimeRef := max (nextStartTimeRef s) currentTime\<rparr>;
          source = \<lparr> node_id = next_id s1, node_buffer = buffer \<rparr>;
          s2 = (emit (SourceStart (node_id source) (nextStartTimeRef s1)) s1)\<lparr>next_id := Suc (next_id s1)\<rparr>;
          s3 = s2\<lparr>nextStartTimeRef := nextStartTimeRef s2 + duration buffer\<rparr>;
          s4 = s3\<lparr>audioQueueRef := audioQueueRef s3 @ [source]\<rparr>
      in emit (OnAIResponse ''Speaking...'') s4)"

text \<open>\<open>source.onended\<close>: the source removes itself from the queue.\<close>

definition onended :: "nat \<Rightarrow> agent \<Rightarrow> agent" where
  "onended n s = s\<lparr>audioQueueRef := filter (\<lambda>source. node_id source \<noteq> n) (audioQueueRef s)\<rparr>"

text \<open>Lines 277-282: the branch taken when the server reports an interruption.\<close>

definition flush :: "agent \<Rightarrow> agent" where
  "flush s = (stop_each (audioQueueRef s) s)\<lparr>audioQueueRef := [], nextStartTimeRef := 0\<rparr>"

definition interrupted_branch :: "agent \<Rightarrow> agent" where
  "interrupted_branch s = emit (OnAIResponse ''Listening...'') (flush s)"

record function_call =
  fc_id :: string
  fc_name :: string
  fc_args :: string

text \<open>
  The caller's \<open>onToolCall\<close>: it may keep state of its own (\<open>'h\<close>), and it either returns a
  value or fails. The loop of lines 285-295 awaits each call before it takes the next.
\<close>

type_synonym 'h tool_handler = "'h \<Rightarrow> string \<Rightarrow> string \<Rightarrow> (js_error + js_value) \<times> 'h"

fun tool_loop :: "'h tool_handler \<Rightarrow> function_call list \<Rightarrow> agent \<times> 'h \<Rightarrow> agent \<times> 'h" where
  "tool_loop onToolCall [] (s, h) = (s, h)"
| "tool_loop onToolCall (fc # rest) (s, h) =
     (let s1 = emit (OnAIResponse (''Running: '' @ fc_name fc)) s;
          s2 = emit (CallOnToolCall (fc_name fc) (fc_args fc)) s1;
          (outcome, h') = onToolCall h (fc_name fc) (fc_args fc);
          s3 = (case outcome of
                  Inr result \<Rightarrow>
                    emit (SendToolResponse (fc_id fc) (fc_name fc)
                            (if truthy result then result else JString ''done'')) s2
                | Inl e \<Rightarrow> emit (ConsoleError ''Tool Error'') s2)
      in tool_loop onToolCall rest (s3, h'))"

record server_message =
  inputTranscription :: "string option"
  audioData :: "string option"
  interrupted :: bool
  toolCall :: "function_call list option"

text \<open>
  The audio branch of \<open>onmessage\<close> (lines 259-275). A payload that \<open>decode\<close> or
  \<open>decodeAudioData\<close> rejects makes the handler's promise reject: the rest of the handler
  does not run for that message.
\<close>

definition audio_branch :: "real \<Rightarrow> server_message \<Rightarrow> agent \<Rightarrow> js_error + agent" where
  "audio_branch currentTime msg s =
     (case audioData msg of
        None \<Rightarrow> Inr s
      | Some payload \<Rightarrow>
          (if payload = [] \<or> outputContextRef s = None then Inr s
           else (case decode payload of
                   Inl e \<Rightarrow> Inl e
                 | Inr rawBytes \<Rightarrow>
                     (case decodeAudioData rawBytes 24000 1 of
                        Inl e \<Rightarrow> Inl e
                      | Inr buffer \<Rightarrow> Inr (schedule_buffer currentTime buffer s)))))"

definition onmessage ::
  "'h tool_handler \<Rightarrow> nat \<Rightarrow> real \<Rightarrow> server_message \<Rightarrow> agent \<times> 'h \<Rightarrow> agent \<times> 'h" where
  "onmessage onToolCall r currentTime msg sh =
     (let (s, h) = sh in
      if \<not> is_mounted r s then (s, h)
      else
        (let s1 = (case inputTranscription msg of None \<Rightarrow> s
                   | Some text \<Rightarrow> emit (OnUserTranscript text) s)
         in case audio_branch currentTime msg s1 of
              Inl e \<Rightarrow> (emit (UnhandledRejection e) s1, h)
            | Inr s2 \<Rightarrow>
                (let s3 = (if interrupted msg then interrupted_branch s2 else s2)
                 in case toolCall msg of
                      None \<Rightarrow> (s3, h)
                    | Some calls \<Rightarrow> tool_loop onToolCall calls (s3, h))))"

subsection \<open>Runs of the scheduler\<close>

text \<open>
  What happens to the scheduler during a session: a decoded buffer is scheduled, with the
  reading of \<open>ctx.currentTime\<close> at that moment; a source ends and removes itself; the
  server reports an interruption.
\<close>

datatype scheduler_event =
    Enqueue real audio_buffer
  | Ended nat
  | Interrupted

fun scheduler_step :: "scheduler_event \<Rightarrow> agent \<Rightarrow> agent" where
  "scheduler_step (Enqueue currentTime buffer) s = schedule_buffer currentTime buffer s"
| "scheduler_step (Ended n) s = onended n s"
| "scheduler_step Interrupted s = interrupted_branch s"

fun run_scheduler :: "scheduler_event list \<Rightarrow> agent \<Rightarrow> agent" where
  "run_scheduler [] s = s"
| "run_scheduler (e # evs) s = run_scheduler evs (scheduler_step e s)"

text \<open>The times given to \<open>source.start\<close>, read from the trace in the order of the calls.\<close>

fun start_time :: "effect \<Rightarrow> real list" where
  "start_time (SourceStart n t) = [t]"
| "start_time e = []"

definition start_times :: "effect list \<Rightarrow> real list" where
  "start_times tr = concat (map start_time tr)"

text \<open>The buffers of a run with their clock readings, in the order of arrival.\<close>

fun enqueued :: "scheduler_event list \<Rightarrow> (real \<times> audio_buffer) list" where
  "enqueued [] = []"
| "enqueued (Enqueue currentTime buffer # evs) = (currentTime, buffer) # enqueued evs"
| "enqueued (Ended n # evs) = enqueued evs"
| "enqueued (Interrupted # evs) = enqueued evs"

text \<open>
  The placement as the specification words it: the planned start of a buffer is the
  maximum of the clock and the accumulated planned end, the planned end is that start plus
  the duration of the buffer, and a flush puts the accumulated planned end back to 0.
\<close>

fun spec_planned_starts :: "real \<Rightarrow> scheduler_event list \<Rightarrow> real list" where
  "spec_planned_starts lastPlannedEnd [] = []"
| "spec_planned_starts lastPlannedEnd (Enqueue currentClockTime frame # evs) =
     max currentClockTime lastPlannedEnd
       # spec_planned_starts (max currentClockTime lastPlannedEnd + duration frame) evs"
| "spec_planned_starts lastPlannedEnd (Ended n # evs) = spec_planned_starts lastPlannedEnd evs"
| "spec_planned_starts lastPlannedEnd (Interrupted # evs) = spec_planned_starts 0 evs"

subsection \<open>Reading the trace\<close>

text \<open>The calls of \<open>onToolCall\<close>, the tool responses sent and the tool errors logged.\<close>

definition dispatched :: "effect list \<Rightarrow> (string \<times> string) list" where
  "dispatched tr = concat (map (\<lambda>e. case e of CallOnToolCall n a \<Rightarrow> [(n, a)] | _ \<Rightarrow> []) tr)"

definition responses :: "effect list \<Rightarrow> (string \<times> string \<times> js_value) list" where
  "responses tr = concat (map (\<lambda>e. case e of SendToolResponse i n v \<Rightarrow> [(i, n, v)] | _ \<Rightarrow> []) tr)"

definition tool_errors :: "effect list \<Rightarrow> nat" where
  "tool_errors tr = length (filter (\<lambda>e. e = ConsoleError ''Tool Error'') tr)"




text \<open>Devices requested, contexts created and sessions opened, counted in the trace.\<close>

definition count_effect :: "(effect \<Rightarrow> bool) \<Rightarrow> agent \<Rightarrow> nat" where
  "count_effect P s = length (filter P (trace s))"

fun is_GetUserMedia :: "effect \<Rightarrow> bool" where
  "is_GetUserMedia GetUserMedia = True"
| "is_GetUserMedia e = False"

fun is_NewAudioContext :: "effect \<Rightarrow> bool" where
  "is_NewAudioContext (NewAudioContext c r) = True"
| "is_NewAudioContext e = False"

fun is_LiveConnect :: "effect \<Rightarrow> bool" where
  "is_LiveConnect (LiveConnect p m) = True"
| "is_LiveConnect e = False"

text \<open>
  Two states of a session, reached by running the model from the first run of the effect
  with \<open>isActive\<close> set: after the microphone was granted
  and \<open>ai.live.connect\<close> was called, with the handshake still pending; and after the
  session opened and one message with 4 bytes of speech (2 frames at 24 kHz) was played.
\<close>

definition connecting_session :: agent where
  "connecting_session =
     settle 0 Fulfilled False False (run_effect ''key'' True ''SUN_DAY'' initial_agent)"

definition speaking_session :: agent where
  "speaking_session =
     fst (onmessage (\<lambda>h n a. (Inr JUndefined, h)) 0 0
            \<lparr> inputTranscription = None, audioData = Some ''AAAAAA=='', interrupted = False, toolCall = None \<rparr>
            (onopen 0 connecting_session, ()))"

text \<open>
  The mode changes while the first run's \<open>startSession\<close> waits for the microphone; then
  both requests for the microphone are granted, the first one first.
\<close>

definition mode_change_during_setup :: agent where
  "mode_change_during_setup =
     settle 0 Fulfilled False False
       (settle 0 Fulfilled False False
          (rerun_effect ''key'' True ''NIGHT_BRAIN''
             (run_effect ''key'' True ''SUN_DAY'' initial_agent)))"






section \<open>Local playback engine (services/audioService.ts)\<close>

subsection \<open>State of the service\<close>

text \<open>
  Of the \<open>HTMLAudioElement\<close> the model keeps the attributes that the methods of the service
  read or write; \<open>el_src\<close> is the content of the \<open>src\<close> attribute, absent until it is first
  assigned. \<open>audioContext\<close> and \<open>source\<close> say whether the fields of that name are set
  (the analyser is created together with the context). \<open>has_onError\<close> says whether the
  caller has registered \<open>callbacks.onError\<close>. The calls that the service makes on the
  element and on the callback are recorded in \<open>journal\<close>.
\<close>

datatype reported = MediaError nat | PlayError js_error

datatype service_effect =
    SetSrc string
  | ElementLoad
  | ElementPlay
  | ElementPause
  | CallOnError reported

record audio_service =
  audioContext :: bool
  source :: bool
  isCorsRestricted :: bool
  el_src :: "string option"
  el_crossOrigin :: "string option"
  el_currentTime :: real
  el_duration :: real
  el_readyState :: nat
  el_paused :: bool
  el_volume :: real
  has_onError :: bool
  journal :: "service_effect list"

text \<open>
  The constructor: a fresh element with \<open>crossOrigin = "anonymous"\<close>, and
  \<open>callbacks = {}\<close>.
\<close>

definition new_service :: audio_service where
  "new_service =
     \<lparr> audioContext = False, source = False, isCorsRestricted = False,
       el_src = None, el_crossOrigin = Some ''anonymous'', el_currentTime = 0,
       el_duration = 0, el_readyState = 0, el_paused = True, el_volume = 1,
       has_onError = False, journal = [] \<rparr>"

text \<open>
  What the platform decides: whether an \<open>AudioContext\<close> constructor exists, whether
  \<open>createMediaElementSource\<close> throws, whether the engine is one of the older ones
  whose \<open>currentTime\<close> setter throws \<open>InvalidStateError\<close> before any metadata is known,
  and how a \<open>src\<close> attribute is resolved against the address of the document and
  serialized.
\<close>

record platform =
  ctor_available :: bool
  connect_fails :: bool
  legacy_seek :: bool
  resolve_url :: "string \<Rightarrow> string"

text \<open>
  Reading \<open>audioElement.src\<close>: the empty string while the attribute is absent, the
  resolved and serialized address otherwise.
\<close>

definition element_src :: "platform \<Rightarrow> audio_service \<Rightarrow> string" where
  "element_src p s = (case el_src s of None \<Rightarrow> [] | Some a \<Rightarrow> resolve_url p a)"

definition journal_add :: "service_effect \<Rightarrow> audio_service \<Rightarrow> audio_service" where
  "journal_add e s = s\<lparr>journal := journal s @ [e]\<rparr>"

text \<open>\<open>this.callbacks.onError?.(r)\<close>\<close>

definition notify_error :: "reported \<Rightarrow> audio_service \<Rightarrow> audio_service" where
  "notify_error r s = (if has_onError s then journal_add (CallOnError r) s else s)"

text \<open>
  Assigning \<open>audioElement.src\<close> restarts the element's load algorithm: the ready state
  goes back to 0.
\<close>

definition assign_src :: "string \<Rightarrow> audio_service \<Rightarrow> audio_service" where
  "assign_src url s = journal_add (SetSrc url) (s\<lparr>el_src := Some url, el_readyState := 0\<rparr>)"

text \<open>
  The \<open>currentTime\<close> setter of the element: a non-finite value is a \<open>TypeError\<close>;
  with no metadata the value becomes the start position (or, on an older engine, the setter
  throws); otherwise the element seeks, within its duration.
\<close>

definition set_currentTime :: "platform \<Rightarrow> number \<Rightarrow> audio_service \<Rightarrow> js_error + audio_service" where
  "set_currentTime p time s =
     (case time of
        Num t \<Rightarrow>
          (if el_readyState s = 0
           then (if legacy_seek p then Inl InvalidStateError else Inr (s\<lparr>el_currentTime := t\<rparr>))
           else Inr (s\<lparr>el_currentTime := max 0 (min (el_duration s) t)\<rparr>))
      | NaN \<Rightarrow> Inl TypeError
      | PosInfinity \<Rightarrow> Inl TypeError
      | NegInfinity \<Rightarrow> Inl TypeError)"

subsection \<open>Methods (lines 39-165)\<close>

text \<open>
  \<open>setCallbacks\<close> replaces the callbacks; \<open>registers_onError\<close> says whether the new object
  has an \<open>onError\<close>. The calls it makes at once go to the duration, time and volume
  callbacks, which the model does not record.
\<close>

definition setCallbacks :: "bool \<Rightarrow> audio_service \<Rightarrow> audio_service" where
  "setCallbacks registers_onError s = s\<lparr>has_onError := registers_onError\<rparr>"

text \<open>
  \<open>init\<close>. Resuming a suspended context changes nothing that the model keeps; a failure
  of \<open>resume\<close> is only logged.
\<close>

definition init :: "platform \<Rightarrow> audio_service \<Rightarrow> audio_service" where
  "init p s =
     (let s1 = (if \<not> audioContext s \<and> ctor_available p then s\<lparr>audioContext := True\<rparr> else s)
      in if \<not> source s1 \<and> \<not> isCorsRestricted s1 \<and> audioContext s1
         then (if connect_fails p then s1\<lparr>isCorsRestricted := True\<rparr> else s1\<lparr>source := True\<rparr>)
         else s1)"

text \<open>
  \<open>safePlay\<close> calls \<open>play()\<close> on the element and attaches a handler to the promise;
  \<open>play_rejected\<close> is that handler, run when the promise is rejected with an error of the
  given name.
\<close>

definition safePlay :: "audio_service \<Rightarrow> audio_service" where
  "safePlay s = journal_add ElementPlay (s\<lparr>el_paused := False\<rparr>)"

definition play_rejected :: "js_error \<Rightarrow> audio_service \<Rightarrow> audio_service" where
  "play_rejected e s =
     (if e = NotAllowedError then s
      else if e \<noteq> AbortError then notify_error (PlayError e) s
      else s)"

text \<open>The \<open>onerror\<close> handler of the element (lines 39-57); \<open>code\<close> is \<open>error.code\<close>.\<close>

definition onerror :: "platform \<Rightarrow> nat \<Rightarrow> audio_service \<Rightarrow> audio_service" where
  "onerror p code s =
     (if element_src p s \<noteq> [] \<and> el_crossOrigin s = Some ''anonymous''
      then (let s1 = s\<lparr>el_crossOrigin := None\<rparr>;
                s2 = s1\<lparr>isCorsRestricted := True\<rparr>;
                currentSrc = element_src p s2;
                s3 = assign_src [] s2;
                s4 = assign_src currentSrc s3
            in safePlay s4)
      else notify_error (MediaError code) s)"

text \<open>\<open>startTime && startTime > 0\<close>\<close>

fun positive :: "number \<Rightarrow> bool" where
  "positive (Num t) = (0 < t)"
| "positive NaN = False"
| "positive PosInfinity = True"
| "positive NegInfinity = False"

text \<open>
  A method returns the state it leaves and, when it throws (for \<open>play\<close>: when its promise
  is rejected), the error.
\<close>

definition play :: "platform \<Rightarrow> string \<Rightarrow> number option \<Rightarrow> audio_service \<Rightarrow> js_error option \<times> audio_service" where
  "play p url startTime s =
     (if url = [] then (None, s)
      else
        (let s1 = (if take 5 url = ''blob:''
                   then s\<lparr>el_crossOrigin := None\<rparr>
                   else s\<lparr>el_crossOrigin := Some ''anonymous'', isCorsRestricted := False\<rparr>);
             s2 = init p s1;
             s3 = (if element_src p s2 \<noteq> url then journal_add ElementLoad (assign_src url s2) else s2)
         in case startTime of
              None \<Rightarrow> (None, safePlay s3)
            | Some t \<Rightarrow>
                (if positive t
                 then (case set_currentTime p t s3 of
                         Inl e \<Rightarrow> (Some e, s3)
                       | Inr s4 \<Rightarrow> (None, safePlay s4))
                 else (None, safePlay s3))))"

definition togglePlay :: "platform \<Rightarrow> audio_service \<Rightarrow> audio_service" where
  "togglePlay p s =
     (if el_paused s then safePlay (init p s)
      else journal_add ElementPause (s\<lparr>el_paused := True\<rparr>))"

definition seek :: "platform \<Rightarrow> number \<Rightarrow> audio_service \<Rightarrow> js_error option \<times> audio_service" where
  "seek p time s =
     (if \<not> isFinite time then (None, s)
      else if 0 < el_readyState s
      then (case set_currentTime p time s of
              Inl e \<Rightarrow> (Some e, s)
            | Inr s' \<Rightarrow> (None, s'))
      else (case set_currentTime p time s of
              Inl e \<Rightarrow> (None, s)
            | Inr s' \<Rightarrow> (None, s')))"

fun plus_number :: "number \<Rightarrow> number \<Rightarrow> number" where
  "plus_number (Num a) (Num b) = Num (a + b)"
| "plus_number NaN y = NaN"
| "plus_number x NaN = NaN"
| "plus_number PosInfinity NegInfinity = NaN"
| "plus_number NegInfinity PosInfinity = NaN"
| "plus_number PosInfinity y = PosInfinity"
| "plus_number NegInfinity y = NegInfinity"
| "plus_number (Num a) y = y"

definition skip :: "platform \<Rightarrow> number \<Rightarrow> audio_service \<Rightarrow> js_error option \<times> audio_service" where
  "skip p seconds s = seek p (plus_number (Num (el_currentTime s)) seconds) s"

text \<open>\<open>Math.max(0, Math.min(1, val))\<close>; the \<open>volume\<close> setter rejects \<open>NaN\<close>.\<close>

fun clamp_unit :: "number \<Rightarrow> number" where
  "clamp_unit (Num v) = Num (max 0 (min 1 v))"
| "clamp_unit NaN = NaN"
| "clamp_unit PosInfinity = Num 1"
| "clamp_unit NegInfinity = Num 0"

definition setVolume :: "number \<Rightarrow> audio_service \<Rightarrow> js_error option \<times> audio_service" where
  "setVolume val s =
     (case clamp_unit val of
        Num v \<Rightarrow> (None, s\<lparr>el_volume := v\<rparr>)
      | NaN \<Rightarrow> (Some TypeError, s)
      | PosInfinity \<Rightarrow> (Some TypeError, s)
      | NegInfinity \<Rightarrow> (Some TypeError, s))"

text \<open>\<open>getFrequencyData\<close>, given the bins that the analyser would deliver.\<close>

definition getFrequencyData :: "byte list \<Rightarrow> audio_service \<Rightarrow> byte list" where
  "getFrequencyData bins s = (if \<not> audioContext s \<or> isCorsRestricted s then [] else bins)"

subsection \<open>Runs of the service\<close>

text \<open>
  What can happen to the service: a call of one of its methods by the caller, an
  \<open>error\<close> event of the element, or the rejection of a \<open>play()\<close> promise.
\<close>

datatype service_call =
    Play string "number option"
  | TogglePlay
  | Seek number
  | Skip number
  | SetVolume number
  | Init
  | SetCallbacks bool
  | ErrorEvent nat
  | PlayRejected js_error

fun apply_call :: "platform \<Rightarrow> service_call \<Rightarrow> audio_service \<Rightarrow> audio_service" where
  "apply_call p (Play url startTime) s = snd (play p url startTime s)"
| "apply_call p TogglePlay s = togglePlay p s"
| "apply_call p (Seek time) s = snd (seek p time s)"
| "apply_call p (Skip seconds) s = snd (skip p seconds s)"
| "apply_call p (SetVolume val) s = snd (setVolume val s)"
| "apply_call p Init s = init p s"
| "apply_call p (SetCallbacks registers_onError) s = setCallbacks registers_onError s"
| "apply_call p (ErrorEvent code) s = onerror p code s"
| "apply_call p (PlayRejected e) s = play_rejected e s"

fun run_calls :: "platform \<Rightarrow> service_call list \<Rightarrow> audio_service \<Rightarrow> audio_service" where
  "run_calls p [] s = s"
| "run_calls p (c # cs) s = run_calls p cs (apply_call p c s)"

text \<open>The branch of \<open>play\<close> taken for a non-empty URL that is not a \<open>blob:\<close> reference.\<close>

fun external_play :: "service_call \<Rightarrow> bool" where
  "external_play (Play url startTime) = (url \<noteq> [] \<and> take 5 url \<noteq> ''blob:'')"
| "external_play c = False"

fun is_feedback :: "service_call \<Rightarrow> bool" where
  "is_feedback (ErrorEvent code) = True"
| "is_feedback (PlayRejected e) = True"
| "is_feedback c = False"

fun is_error_event :: "service_call \<Rightarrow> bool" where
  "is_error_event (ErrorEvent code) = True"
| "is_error_event c = False"

definition plays :: "audio_service \<Rightarrow> nat" where
  "plays s = length (filter (\<lambda>e. e = ElementPlay) (journal s))"

text \<open>
  A platform of today (an absolute address in serialized form resolves to itself, the
  empty string to the address of the document), and a
  service that has gone through the recovery once: the caller registered its callbacks, a
  network track was started, and the element reported an error.
\<close>

definition modern :: platform where
  "modern = \<lparr> ctor_available = True, connect_fails = False, legacy_seek = False,
              resolve_url = (\<lambda>address. if address = [] then ''https://app.example/'' else address) \<rparr>"

definition network_track :: audio_service where
  "network_track =
     snd (play modern ''https://example.org/a.mp3'' None (setCallbacks True new_service))"

definition restricted_service :: audio_service where
  "restricted_service = onerror modern 4 network_track"

section \<open>Properties of the codec\<close>

subsection \<open>Base64: decoding what was encoded\<close>

lemma sextet_mod: "sextet (n mod 64) = sextet n"
  by (simp add: sextet_def)

lemma btoa_split: "btoa bs = map sextet (sextets_of bs) @ padding bs"
  by (induction bs rule: btoa.induct) (simp_all add: Let_def sextet_mod)

lemma sextets_of_bound: "\<forall>n \<in> set (sextets_of bs). n < 64"
  by (induction bs rule: sextets_of.induct) (simp_all add: Let_def)

lemma sextets_length: "length (sextets_of bs) mod 4 \<noteq> 1"
  by (induction bs rule: sextets_of.induct) (simp_all add: Let_def)

lemma total_length: "(length (sextets_of bs) + length (padding bs)) mod 4 = 0"
  by (induction bs rule: sextets_of.induct) (simp_all add: Let_def)

lemma index_of_nth: "distinct xs \<Longrightarrow> k < length xs \<Longrightarrow> index_of xs (xs ! k) = Some k"
proof (induction xs arbitrary: k)
  case Nil
  then show ?case by simp
next
  case (Cons x xs)
  show ?case
  proof (cases k)
    case 0
    then show ?thesis by simp
  next
    case (Suc j)
    with Cons.prems have "j < length xs" "distinct xs" "xs ! j \<noteq> x"
      by auto
    with Cons.IH [of j] show ?thesis by (simp add: Suc)
  qed
qed

lemma regroup4:
  fixes n :: nat
  assumes "n < 16777216"
  shows "n div 262144 mod 64 * 262144 + n div 4096 mod 64 * 4096 + n div 64 mod 64 * 64 + n mod 64 = n"
proof -
  define q1 where "q1 = n div 64"
  define q2 where "q2 = q1 div 64"
  define q3 where "q3 = q2 div 64"
  have d2: "n div 4096 = q2" by (simp add: q1_def q2_def div_mult2_eq)
  have d3: "n div 262144 = q3" by (simp add: q1_def q2_def q3_def div_mult2_eq)
  have e1: "n = q1 * 64 + n mod 64" by (simp add: q1_def)
  have e2: "q1 = q2 * 64 + q1 mod 64" by (simp add: q2_def)
  have e3: "q2 = q3 * 64 + q2 mod 64" by (simp add: q3_def)
  have "q3 < 64" using assms unfolding d3 [symmetric] by simp
  then have m3: "q3 mod 64 = q3" by simp
  have "q3 * 262144 + q2 mod 64 * 4096 + q1 mod 64 * 64 + n mod 64 = n"
    using e1 e2 e3 by linarith
  then show ?thesis
    by (simp add: d2 d3 m3 q1_def [symmetric])
qed

lemma regroup3:
  fixes n :: nat
  assumes "n < 262144"
  shows "n div 4096 mod 64 * 4096 + n div 64 mod 64 * 64 + n mod 64 = n"
proof -
  define q1 where "q1 = n div 64"
  define q2 where "q2 = q1 div 64"
  have d2: "n div 4096 = q2" by (simp add: q1_def q2_def div_mult2_eq)
  have e1: "n = q1 * 64 + n mod 64" by (simp add: q1_def)
  have e2: "q1 = q2 * 64 + q1 mod 64" by (simp add: q2_def)
  have "q2 < 64" using assms unfolding d2 [symmetric] by simp
  then have m2: "q2 mod 64 = q2" by simp
  have "q2 * 4096 + q1 mod 64 * 64 + n mod 64 = n"
    using e1 e2 by linarith
  then show ?thesis
    by (simp add: d2 m2 q1_def [symmetric])
qed

lemma regroup2:
  fixes n :: nat
  assumes "n < 4096"
  shows "n div 64 mod 64 * 64 + n mod 64 = n"
proof -
  have "n div 64 < 64" using assms by simp
  then have "n div 64 mod 64 = n div 64" by simp
  then show ?thesis by simp
qed

lemma low_of_nat: "(of_nat (x * 256 + unat b) :: byte) = b"
proof -
  have "(of_nat (x * 256 + unat b) :: byte) = of_nat (unat b)"
    unfolding word_of_nat_eq_iff by (simp add: take_bit_eq_mod)
  then show ?thesis by simp
qed

lemma bytes3:
  fixes a b c :: byte
  shows "(of_nat ((unat a * 65536 + unat b * 256 + unat c) div 65536) :: byte) = a"
    and "(of_nat ((unat a * 65536 + unat b * 256 + unat c) div 256) :: byte) = b"
    and "(of_nat (unat a * 65536 + unat b * 256 + unat c) :: byte) = c"
proof -
  have bc: "unat b < 256" "unat c < 256"
    using unsigned_less [of b, where ?'a = nat] unsigned_less [of c, where ?'a = nat] by simp_all
  then have e1: "(unat a * 65536 + unat b * 256 + unat c) div 65536 = unat a" by simp
  show "(of_nat ((unat a * 65536 + unat b * 256 + unat c) div 65536) :: byte) = a"
    unfolding e1 by simp
  from bc have e2: "(unat a * 65536 + unat b * 256 + unat c) div 256 = unat a * 256 + unat b" by simp
  show "(of_nat ((unat a * 65536 + unat b * 256 + unat c) div 256) :: byte) = b"
    unfolding e2 by (rule low_of_nat)
  have e3: "unat a * 65536 + unat b * 256 + unat c = (unat a * 256 + unat b) * 256 + unat c" by simp
  show "(of_nat (unat a * 65536 + unat b * 256 + unat c) :: byte) = c"
    unfolding e3 by (rule low_of_nat)
qed

lemma bytes2:
  fixes a b :: byte
  shows "(of_nat ((unat a * 1024 + unat b * 4) div 1024) :: byte) = a"
    and "(of_nat ((unat a * 1024 + unat b * 4) div 4) :: byte) = b"
proof -
  have b: "unat b < 256" using unsigned_less [of b, where ?'a = nat] by simp
  then have e1: "(unat a * 1024 + unat b * 4) div 1024 = unat a" by simp
  show "(of_nat ((unat a * 1024 + unat b * 4) div 1024) :: byte) = a"
    unfolding e1 by simp
  have e2: "(unat a * 1024 + unat b * 4) div 4 = unat a * 256 + unat b" by simp
  show "(of_nat ((unat a * 1024 + unat b * 4) div 4) :: byte) = b"
    unfolding e2 by (rule low_of_nat)
qed

lemma bytes1:
  fixes a :: byte
  shows "(of_nat ((unat a * 16) div 16) :: byte) = a"
  by simp

lemma alphabet_distinct: "distinct b64_alphabet"
  by (simp add: b64_alphabet_def)

lemma alphabet_length: "length b64_alphabet = 64"
  by (simp add: b64_alphabet_def)

lemma index_of_sextet: "n < 64 \<Longrightarrow> index_of b64_alphabet (sextet n) = Some n"
  by (simp add: sextet_def index_of_nth alphabet_distinct alphabet_length)

lemma those_sextets:
  "\<forall>n \<in> set ns. n < 64 \<Longrightarrow> those (map (index_of b64_alphabet) (map sextet ns)) = Some ns"
  by (induction ns) (simp_all add: index_of_sextet)

lemma sextet_in_alphabet: "sextet n \<in> set b64_alphabet"
  by (simp add: sextet_def alphabet_length)

lemma sextet_not_special: "sextet n \<noteq> CHR ''='' \<and> \<not> ascii_whitespace (sextet n)"
proof -
  have "CHR ''='' \<notin> set b64_alphabet" "\<forall>c \<in> set b64_alphabet. \<not> ascii_whitespace c"
    by (simp_all add: b64_alphabet_def ascii_whitespace_def)
  with sextet_in_alphabet [of n] show ?thesis by auto
qed

lemma padding_no_whitespace: "filter (\<lambda>c. \<not> ascii_whitespace c) (padding bs) = padding bs"
  by (induction bs rule: padding.induct) (simp_all add: ascii_whitespace_def)

lemma filter_btoa: "filter (\<lambda>c. \<not> ascii_whitespace c) (btoa bs) = btoa bs"
  by (simp add: btoa_split padding_no_whitespace filter_map o_def sextet_not_special)

lemma padding_cases: "padding bs = [] \<or> padding bs = ''='' \<or> padding bs = ''==''"
  by (induction bs rule: padding.induct) simp_all

lemma sextets_nonempty: "padding bs \<noteq> [] \<Longrightarrow> sextets_of bs \<noteq> []"
  by (induction bs rule: sextets_of.induct) (simp_all add: Let_def)

lemma last_sextet: "ns \<noteq> [] \<Longrightarrow> last (map sextet ns) \<noteq> CHR ''=''"
  by (simp add: last_map sextet_not_special)

lemma strip_btoa: "strip_padding (btoa bs) = map sextet (sextets_of bs)"
proof -
  let ?core = "map sextet (sextets_of bs)"
  have len: "length (?core @ padding bs) mod 4 = 0"
    using total_length [of bs] by simp
  consider "padding bs = []" | "padding bs = ''=''" | "padding bs = ''==''"
    using padding_cases by blast
  then show ?thesis
  proof cases
    case 1
    show ?thesis
    proof (cases "sextets_of bs = []")
      case True
      with 1 show ?thesis by (simp add: btoa_split strip_padding_def)
    next
      case False
      with 1 last_sextet [OF False] show ?thesis by (simp add: btoa_split strip_padding_def)
    qed
  next
    case 2
    then have ne: "sextets_of bs \<noteq> []" using sextets_nonempty by auto
    from 2 len last_sextet [OF ne] show ?thesis
      by (simp add: btoa_split strip_padding_def butlast_append)
  next
    case 3
    from 3 len show ?thesis
      by (simp add: btoa_split strip_padding_def butlast_append)
  qed
qed

lemma sextets_decode: "sextets_to_bytes (sextets_of bs) = bs"
proof (induction bs rule: sextets_of.induct)
  case (1 a b c rest)
  define n where "n = unat a * 65536 + unat b * 256 + unat c"
  have "unat a < 256" "unat b < 256" "unat c < 256"
    using unsigned_less [of a, where ?'a = nat] unsigned_less [of b, where ?'a = nat]
      unsigned_less [of c, where ?'a = nat] by simp_all
  then have "n < 16777216" by (simp add: n_def)
  then have r: "n div 262144 mod 64 * 262144 + n div 4096 mod 64 * 4096 + n div 64 mod 64 * 64 + n mod 64 = n"
    by (rule regroup4)
  have b3: "(of_nat (n div 65536) :: byte) = a" "(of_nat (n div 256) :: byte) = b" "(of_nat n :: byte) = c"
    unfolding n_def by (rule bytes3)+
  have s: "sextets_of (a # b # c # rest) =
      n div 262144 mod 64 # n div 4096 mod 64 # n div 64 mod 64 # n mod 64 # sextets_of rest"
    unfolding n_def by (simp only: sextets_of.simps Let_def)
  show ?case
    unfolding s by (simp only: sextets_to_bytes.simps Let_def r b3 "1.IH")
next
  case (2 a b)
  define n where "n = unat a * 1024 + unat b * 4"
  have "unat a < 256" "unat b < 256"
    using unsigned_less [of a, where ?'a = nat] unsigned_less [of b, where ?'a = nat] by simp_all
  then have "n < 262144" by (simp add: n_def)
  then have r: "n div 4096 mod 64 * 4096 + n div 64 mod 64 * 64 + n mod 64 = n"
    by (rule regroup3)
  have b2: "(of_nat (n div 1024) :: byte) = a" "(of_nat (n div 4) :: byte) = b"
    unfolding n_def by (rule bytes2)+
  have s: "sextets_of [a, b] = [n div 4096 mod 64, n div 64 mod 64, n mod 64]"
    unfolding n_def by (simp only: sextets_of.simps Let_def)
  show ?case
    unfolding s by (simp only: sextets_to_bytes.simps Let_def r b2)
next
  case (3 a)
  define n where "n = unat a * 16"
  have "unat a < 256"
    using unsigned_less [of a, where ?'a = nat] by simp
  then have "n < 4096" by (simp add: n_def)
  then have r: "n div 64 mod 64 * 64 + n mod 64 = n"
    by (rule regroup2)
  have b1: "(of_nat (n div 16) :: byte) = a"
    unfolding n_def by (rule bytes1)
  have s: "sextets_of [a] = [n div 64 mod 64, n mod 64]"
    unfolding n_def by (simp only: sextets_of.simps Let_def)
  show ?case
    unfolding s by (simp only: sextets_to_bytes.simps r b1)
next
  case 4
  show ?case by simp
qed

lemma atob_btoa: "atob (btoa bs) = Some bs"
proof -
  have a: "strip_padding (filter (\<lambda>c. \<not> ascii_whitespace c) (btoa bs)) = map sextet (sextets_of bs)"
    by (simp only: filter_btoa strip_btoa)
  have b: "length (map sextet (sextets_of bs)) mod 4 \<noteq> 1"
    using sextets_length [of bs] by simp
  have c: "those (map (index_of b64_alphabet) (map sextet (sextets_of bs))) = Some (sextets_of bs)"
    by (rule those_sextets) (rule sextets_of_bound)
  show ?thesis
    unfolding atob_def a Let_def c using b by (simp add: sextets_decode)
qed

lemma encode_loop_append: "encode_loop acc bs = acc @ bs"
  by (induction bs arbitrary: acc) simp_all

lemma decode_encode: "decode (encode bs) = Inr bs"
  by (simp add: decode_def encode_def encode_loop_append atob_btoa)

subsection \<open>Typed-array views and quantisation\<close>

lemma low_byte: "(ucast (word_of_int k :: 16 word) :: 8 word) = word_of_int (k mod 256)"
  apply transfer
  apply (simp add: take_bit_eq_mod mod_mod_cancel)
  done

lemma high_byte: "(ucast (drop_bit 8 (word_of_int k :: 16 word)) :: 8 word) = word_of_int (k div 256 mod 256)"
proof -
  have eq: "k div 256 mod 256 = take_bit 8 (drop_bit 8 k)"
    by (simp add: take_bit_eq_mod drop_bit_eq_div)
  show ?thesis
    unfolding eq by (rule bit_word_eqI) (auto simp: bit_simps)
qed

lemma sint_in_range: "- 32768 \<le> k \<Longrightarrow> k < 32768 \<Longrightarrow> sint (word_of_int k :: 16 word) = k"
  by (simp add: sint_sbintrunc' signed_take_bit_int_eq_self)

lemma trunc_bounds: "- 1 \<le> x \<Longrightarrow> x < 1 \<Longrightarrow> - 32768 \<le> trunc (x * 32768) \<and> trunc (x * 32768) < 32768"
  unfolding trunc_def
  by (auto simp: floor_less_iff le_ceiling_iff le_floor_iff ceiling_less_iff) 

lemma bytes_join: "(ucast (ucast w :: 8 word) OR push_bit 8 (ucast (ucast (drop_bit 8 w) :: 8 word))) = (w :: 16 word)"
  apply (rule bit_word_eqI)
  apply (auto simp: bit_simps)
  done

lemma int16_view_uint8_view: "int16_view (uint8_view ws) = Inr ws"
  by (induction ws) (simp_all add: bytes_join)

lemma createBlob_data: "blob_data (createBlob data) = encode (uint8_view (map quantize data))"
  by (simp add: createBlob_def)

lemma decode_createBlob: "decode (blob_data (createBlob data)) = Inr (uint8_view (map quantize data))"
  unfolding createBlob_data by (rule decode_encode)

lemma round_trip_eq:
  assumes "data \<noteq> []" "rate \<noteq> 0"
  shows "round_trip data rate = Inr (map (\<lambda>x. real_of_int (sint (quantize x)) / 32768) data)"
proof -
  have "decodeAudioData (uint8_view (map quantize data)) rate 1 =
      Inr \<lparr> numberOfChannels = 1, sampleRate = rate,
            channelData = [map (\<lambda>x. real_of_int (sint (quantize x)) / 32768) data] \<rparr>"
    using assms
    by (simp add: decodeAudioData_def int16_view_uint8_view) (rule nth_equalityI, simp_all)
  then show ?thesis
    by (simp add: round_trip_def decode_createBlob)
qed

lemma quantize_in_range:
  assumes "- 1 \<le> x" "x < 1"
  shows "sint (quantize x) = trunc (x * 32768)"
  using trunc_bounds [OF assms] by (simp add: quantize_def ToInt16_def sint_in_range)

lemma trunc_error: "\<bar>y - real_of_int (trunc y)\<bar> < 1"
  unfolding trunc_def by (auto simp: abs_if) linarith+

lemma quantization_error:
  assumes "- 1 \<le> x" "x < 1"
  shows "\<bar>x - real_of_int (sint (quantize x)) / 32768\<bar> < 1 / 32768"
proof -
  define t where "t = real_of_int (trunc (x * 32768))"
  have "\<bar>x * 32768 - t\<bar> < 1" unfolding t_def by (rule trunc_error)
  then have "- 1 < x * 32768 - t" "x * 32768 - t < 1" by linarith+
  then have "\<bar>x - t / 32768\<bar> < 1 / 32768"
    unfolding abs_less_iff by (simp add: field_simps)
  then show ?thesis
    unfolding quantize_in_range [OF assms] t_def .
qed

lemma round_trip_within_bound:
  assumes "data \<noteq> []" "rate \<noteq> 0" "\<forall>x \<in> set data. - 1 \<le> x \<and> x < 1"
  shows "\<exists>out. round_trip data rate = Inr out \<and> length out = length data
           \<and> (\<forall>i < length data. \<bar>data ! i - out ! i\<bar> < 1 / 32768)"
proof -
  let ?out = "map (\<lambda>x. real_of_int (sint (quantize x)) / 32768) data"
  have "\<bar>data ! i - ?out ! i\<bar> < 1 / 32768" if "i < length data" for i
  proof -
    from that assms(3) have "- 1 \<le> data ! i" "data ! i < 1" by simp_all
    from quantization_error [OF this] that show ?thesis by (simp only: nth_map)
  qed
  then show ?thesis
    using round_trip_eq [OF assms(1,2)] by simp
qed


lemma uint8_view_bytes:
  "uint8_view (map quantize data) =
     concat (map (\<lambda>x. [word_of_int (trunc (x * 32768) mod 256),
                        word_of_int (trunc (x * 32768) div 256 mod 256)]) data)"
  by (induction data) (simp_all add: quantize_def ToInt16_def low_byte high_byte)


text \<open>
  Claim C2 (codec round trip). The full-scale sample 1.0 lies in the range of the claim.
  \<open>createBlob\<close> scales it to 32768, which the store into the \<open>Int16Array\<close> wraps to
  -32768; decoding returns -1.0. The round trip is off by 2, far above 1/32768.
  (\<open>round_trip_within_bound\<close> shows that every sample from -1 up to, but excluding, 1
  does come back within 1/32768.)
\<close>

theorem round_trip_full_scale_wraps:
  "round_trip [1] 16000 = Inr [- 1]"
  by (simp add: round_trip_eq quantize_def ToInt16_def trunc_def)

text \<open>
  Claim C3 (outbound quantisation), as stated: the sample 0.75 is stored as
  \<open>trunc (0.75 * 32768) = 24576\<close>, where rounding \<open>0.75 * 32767\<close> gives 24575.
\<close>

theorem quantize_differs_from_spec:
  "sint (quantize (3 / 4)) = 24576 \<and> spec_quantize (3 / 4) = 24575
   \<and> sint (quantize (3 / 4)) \<noteq> spec_quantize (3 / 4)"
  by (simp add: quantize_def ToInt16_def trunc_def spec_quantize_def round_def)

text \<open>
  Claim C3, amended. For samples from -1 up to, but excluding, 1, \<open>createBlob\<close> stores
  each sample as the signed 16-bit integer \<open>trunc (sample * 32768)\<close> (scaled by 32768,
  truncated towards zero); the payload is the base64 text of those integers, low byte
  first; and the packet is tagged \<open>audio/pcm;rate=16000\<close>.
\<close>

theorem createBlob_quantization:
  assumes "\<forall>x \<in> set data. - 1 \<le> x \<and> x < 1"
  shows "map (\<lambda>x. sint (quantize x)) data = map (\<lambda>x. trunc (x * 32768)) data
    \<and> blob_data (createBlob data) =
        btoa (concat (map (\<lambda>x. [word_of_int (trunc (x * 32768) mod 256),
                                  word_of_int (trunc (x * 32768) div 256 mod 256)]) data))
    \<and> mimeType (createBlob data) = ''audio/pcm;rate=16000''"
proof -
  have "map (\<lambda>x. sint (quantize x)) data = map (\<lambda>x. trunc (x * 32768)) data"
    using assms by (simp add: quantize_in_range)
  moreover have "blob_data (createBlob data) =
        btoa (concat (map (\<lambda>x. [word_of_int (trunc (x * 32768) mod 256),
                                  word_of_int (trunc (x * 32768) div 256 mod 256)]) data))"
    unfolding createBlob_data encode_def encode_loop_append uint8_view_bytes by simp
  moreover have "mimeType (createBlob data) = ''audio/pcm;rate=16000''"
    by (simp add: createBlob_def)
  ultimately show ?thesis by blast
qed

theorem createBlob_quantization_witness:
  "map (\<lambda>x. sint (quantize x)) [3 / 4, - 1] = [24576, - 32768]
   \<and> blob_data (createBlob [3 / 4, - 1]) = ''AGAAgA==''"
  using createBlob_quantization [of "[3 / 4, - 1]"]
  by (simp add: trunc_def sextet_def b64_alphabet_def)

section \<open>Properties of the playback scheduler\<close>

lemma schedule_buffer_trace:
  "trace (schedule_buffer t b s) =
     trace s @ [SourceStart (next_id s) (max (nextStartTimeRef s) t), OnAIResponse ''Speaking...'']"
  by (simp add: schedule_buffer_def emit_def Let_def)

lemma schedule_buffer_clock:
  "nextStartTimeRef (schedule_buffer t b s) = max (nextStartTimeRef s) t + duration b"
  by (simp add: schedule_buffer_def emit_def Let_def)

lemma schedule_buffer_queue:
  "audioQueueRef (schedule_buffer t b s) =
     audioQueueRef s @ [\<lparr> node_id = next_id s, node_buffer = b \<rparr>]"
  by (simp add: schedule_buffer_def emit_def Let_def)

lemma stop_each_trace:
  "stop_each q s = s\<lparr>trace := trace s @ map (\<lambda>n. SourceStop (node_id n)) q\<rparr>"
  by (induction q arbitrary: s) (simp_all add: emit_def)

lemma start_times_append: "start_times (xs @ ys) = start_times xs @ start_times ys"
  by (simp add: start_times_def)

lemma start_times_stops: "start_times (map (\<lambda>n. SourceStop (node_id n)) q) = []"
  by (induction q) (simp_all add: start_times_def)

lemma scheduler_step_starts:
  "start_times (trace (scheduler_step e s)) =
     start_times (trace s) @ (case e of Enqueue t b \<Rightarrow> [max t (nextStartTimeRef s)] | _ \<Rightarrow> [])"
proof (cases e)
  case (Enqueue t b)
  then show ?thesis
    by (simp add: schedule_buffer_trace start_times_append max.commute) (simp add: start_times_def)
next
  case (Ended n)
  then show ?thesis by (simp add: onended_def)
next
  case Interrupted
  then show ?thesis
    by (simp add: interrupted_branch_def flush_def stop_each_trace emit_def start_times_append
        start_times_stops) (simp add: start_times_def)
qed

lemma scheduler_step_clock:
  "nextStartTimeRef (scheduler_step e s) =
     (case e of Enqueue t b \<Rightarrow> max t (nextStartTimeRef s) + duration b
      | Ended n \<Rightarrow> nextStartTimeRef s
      | Interrupted \<Rightarrow> 0)"
  by (cases e)
     (simp_all add: schedule_buffer_clock onended_def interrupted_branch_def flush_def emit_def
        stop_each_trace max.commute)

lemma run_scheduler_starts:
  "start_times (trace (run_scheduler evs s)) =
     start_times (trace s) @ spec_planned_starts (nextStartTimeRef s) evs"
proof (induction evs arbitrary: s)
  case Nil
  show ?case by simp
next
  case (Cons e evs)
  show ?case
    by (cases e) (simp_all add: Cons.IH scheduler_step_starts scheduler_step_clock
        del: scheduler_step.simps)
qed

lemma planned_length: "length (spec_planned_starts acc evs) = length (enqueued evs)"
  by (induction acc evs rule: spec_planned_starts.induct) simp_all

lemma first_start_after_end:
  "\<forall>e \<in> set evs. e \<noteq> Interrupted \<Longrightarrow> 0 < length (enqueued evs) \<Longrightarrow>
     acc \<le> spec_planned_starts acc evs ! 0"
  by (induction acc evs rule: spec_planned_starts.induct) simp_all

lemma planned_no_overlap:
  "\<forall>e \<in> set evs. e \<noteq> Interrupted \<Longrightarrow> Suc k < length (enqueued evs) \<Longrightarrow>
     spec_planned_starts acc evs ! k + duration (snd (enqueued evs ! k))
       \<le> spec_planned_starts acc evs ! Suc k"
proof (induction acc evs arbitrary: k rule: spec_planned_starts.induct)
  case (1 acc)
  then show ?case by simp
next
  case (2 acc t b evs)
  show ?case
  proof (cases k)
    case 0
    with 2 first_start_after_end [of evs "max t acc + duration b"] show ?thesis by simp
  next
    case (Suc j)
    with 2 show ?thesis by simp
  qed
next
  case (3 acc n evs)
  then show ?case by simp
next
  case (4 acc evs)
  then show ?case by simp
qed


text \<open>
  Claim C1 (gapless scheduling). Scheduling one buffer calls \<open>source.start\<close> with the
  maximum of the clock reading and the accumulator, and leaves the accumulator at that
  time plus the duration of the buffer, the planned end. Over any run of the scheduler
  from any state (buffers enqueued, sources ending in between, interruptions) the times
  given to \<open>source.start\<close> are, in order, the planned starts as the specification words
  them, one per buffer. In a run without interruption every buffer is started no earlier
  than the planned end of the buffer before it. The placement depends on the accumulator
  and the clock only.
\<close>

theorem gapless_scheduling:
  "trace (schedule_buffer t b s) =
     trace s @ [SourceStart (next_id s) (max t (nextStartTimeRef s)), OnAIResponse ''Speaking...'']
   \<and> nextStartTimeRef (schedule_buffer t b s) = max t (nextStartTimeRef s) + duration b
   \<and> start_times (trace (run_scheduler evs s)) =
       start_times (trace s) @ spec_planned_starts (nextStartTimeRef s) evs
   \<and> length (spec_planned_starts (nextStartTimeRef s) evs) = length (enqueued evs)
   \<and> ((\<forall>e \<in> set evs. e \<noteq> Interrupted) \<and> Suc k < length (enqueued evs) \<longrightarrow>
        drop (length (start_times (trace s))) (start_times (trace (run_scheduler evs s))) ! k
            + duration (snd (enqueued evs ! k))
          \<le> drop (length (start_times (trace s))) (start_times (trace (run_scheduler evs s))) ! Suc k)"
  using planned_no_overlap [of evs k "nextStartTimeRef s"]
  by (simp add: schedule_buffer_trace schedule_buffer_clock run_scheduler_starts planned_length
      max.commute)

theorem gapless_scheduling_witness:
  "start_times (trace (run_scheduler
      [Enqueue 0 \<lparr>numberOfChannels = 1, sampleRate = 24000, channelData = [[0, 1 / 2]]\<rparr>,
       Ended 0,
       Enqueue (1 / 48000) \<lparr>numberOfChannels = 1, sampleRate = 24000, channelData = [[1 / 4]]\<rparr>]
      initial_agent)) = [0, 1 / 12000]
   \<and> 0 + duration \<lparr>numberOfChannels = 1, sampleRate = 24000, channelData = [[0, 1 / 2]]\<rparr> \<le> (1 / 12000 :: real)"
  using gapless_scheduling [of 0 "\<lparr>numberOfChannels = 1, sampleRate = 24000, channelData = [[0, 1 / 2]]\<rparr>"
      initial_agent
      "[Enqueue 0 \<lparr>numberOfChannels = 1, sampleRate = 24000, channelData = [[0, 1 / 2]]\<rparr>,
       Ended 0,
       Enqueue (1 / 48000) \<lparr>numberOfChannels = 1, sampleRate = 24000, channelData = [[1 / 4]]\<rparr>]" 0]
  by (simp add: initial_agent_def duration_def frames_def start_times_def)


lemma flush_empty_queue:
  "audioQueueRef s = [] \<Longrightarrow> flush s = s\<lparr>nextStartTimeRef := 0\<rparr>"
  by (simp add: flush_def)


section \<open>Properties of the session\<close>

subsection \<open>Teardown\<close>

lemma close_session_eq:
  "close_session s = s\<lparr>sessionRef := None,
      trace := trace s @ (case sessionRef s of None \<Rightarrow> [] | Some p \<Rightarrow> [SessionClose p])\<rparr>"
  by (cases "sessionRef s") (simp_all add: close_session_def emit_def)

lemma stop_stream_eq:
  "stop_stream s = s\<lparr>streamRef := None,
      trace := trace s @ (case streamRef s of None \<Rightarrow> [] | Some m \<Rightarrow> [TrackStop m])\<rparr>"
  by (cases "streamRef s") (simp_all add: stop_stream_def emit_def)

lemma disconnect_processor_eq:
  "disconnect_processor s = s\<lparr>processorRef := None,
      trace := trace s @ (case processorRef s of None \<Rightarrow> [] | Some n \<Rightarrow> [ProcessorDisconnect n])\<rparr>"
  by (cases "processorRef s") (simp_all add: disconnect_processor_def emit_def)

lemma close_input_context_eq:
  "close_input_context s = s\<lparr>inputContextRef := None,
      trace := trace s @ (case inputContextRef s of None \<Rightarrow> [] | Some c \<Rightarrow> [ContextClose c])\<rparr>"
  by (cases "inputContextRef s") (simp_all add: close_input_context_def emit_def)

lemma close_output_context_eq:
  "close_output_context s = s\<lparr>outputContextRef := None,
      trace := trace s @ (case outputContextRef s of None \<Rightarrow> [] | Some c \<Rightarrow> [ContextClose c])\<rparr>"
  by (cases "outputContextRef s") (simp_all add: close_output_context_def emit_def)

lemma stop_queue_eq:
  "stop_queue s = s\<lparr>audioQueueRef := [],
      trace := trace s @ map (\<lambda>n. SourceStop (node_id n)) (audioQueueRef s)\<rparr>"
  by (simp add: stop_queue_def stop_each_trace)

lemma cleanup_eq:
  "cleanup r s = s\<lparr>mounted := (mounted s)[r := False], isConnectingRef := False, sessionRef := None, streamRef := None,
      processorRef := None, inputContextRef := None, outputContextRef := None,
      audioQueueRef := [], status := Idle,
      trace := trace s
     @ (case sessionRef s of None \<Rightarrow> [] | Some p \<Rightarrow> [SessionClose p])
     @ (case streamRef s of None \<Rightarrow> [] | Some m \<Rightarrow> [TrackStop m])
     @ (case processorRef s of None \<Rightarrow> [] | Some n \<Rightarrow> [ProcessorDisconnect n])
     @ (case inputContextRef s of None \<Rightarrow> [] | Some c \<Rightarrow> [ContextClose c])
     @ (case outputContextRef s of None \<Rightarrow> [] | Some c \<Rightarrow> [ContextClose c])
     @ map (\<lambda>n. SourceStop (node_id n)) (audioQueueRef s)\<rparr>"
  by (simp add: cleanup_def Let_def close_session_eq stop_stream_eq disconnect_processor_eq
      close_input_context_eq close_output_context_eq stop_queue_eq)

lemma cleanup_clock: "nextStartTimeRef (cleanup r s) = nextStartTimeRef s"
  by (simp add: cleanup_eq)

lemma cleanup_idem: "cleanup r (cleanup r s) = cleanup r s"
  by (simp add: cleanup_eq)

lemma connecting_session_state: "connecting_session =
   \<lparr>mounted = [True], status = Connecting, sessionRef = Some 3,
    isConnectingRef = False, inputContextRef = Some 1,
    outputContextRef = Some 2, streamRef = Some 0, processorRef = None,
    nextStartTimeRef = 0, audioQueueRef = [],
    suspended = [], next_id = 4,
    trace =
      [OnAIResponse ''Connecting (SUN_DAY)...'', GetUserMedia,
       NewAudioContext 1 16000, NewAudioContext 2 24000,
       LiveConnect 3 ''SUN_DAY'']\<rparr>"
  by (simp add: connecting_session_def run_effect_def settle_def startSession_def initial_agent_def
      emit_def media_granted_def resume_input_def resume_output_def connect_session_def Let_def)

lemma decode_zero: "decode ''AAAAAA=='' = Inr [0, 0, 0, 0]"
  by (simp add: decode_def atob_def strip_padding_def ascii_whitespace_def b64_alphabet_def)

lemma decodeAudio_zero:
  "decodeAudioData [0, 0, 0, 0] 24000 (Suc 0) =
     Inr \<lparr>numberOfChannels = 1, sampleRate = 24000, channelData = [[0, 0]]\<rparr>"
  by (simp add: decodeAudioData_def upt_rec)

lemma speaking_session_state: "speaking_session =
  \<lparr>mounted = [True], status = Connected, sessionRef = Some 3,
    isConnectingRef = False, inputContextRef = Some 1,
    outputContextRef = Some 2, streamRef = Some 0, processorRef = Some 4,
    nextStartTimeRef = 1 / 12000,
    audioQueueRef =
      [\<lparr>node_id = 5,
          node_buffer =
            \<lparr>numberOfChannels = 1, sampleRate = 24000,
               channelData = [[0, 0]]\<rparr>\<rparr>],
    suspended = [], next_id = 6,
    trace =
      [OnAIResponse ''Connecting (SUN_DAY)...'', GetUserMedia,
       NewAudioContext 1 16000, NewAudioContext 2 24000,
       LiveConnect 3 ''SUN_DAY'', OnAIResponse ''VS FM Live'',
       NewScriptProcessor 4, SourceStart 5 0,
       OnAIResponse ''Speaking...'']\<rparr>"
  by (simp add: speaking_session_def connecting_session_state onopen_def onmessage_def
      is_mounted_def audio_branch_def decode_zero decodeAudio_zero schedule_buffer_def emit_def
      Let_def duration_def frames_def)


text \<open>
  Claim C5 (teardown). \<open>cleanup\<close> releases the session, the stream, the processor and both
  contexts, stops and removes the queued sources and sets the status to idle
  (\<open>cleanup_eq\<close>), and a second call releases nothing again (\<open>cleanup_idem\<close>). It does not
  touch the scheduling clock: after a session that has played 2 frames, the clock still
  reads 1/12000 once \<open>cleanup\<close> has run, where the interruption branch sets it to 0.
\<close>

theorem cleanup_keeps_scheduling_clock:
  "nextStartTimeRef speaking_session = 1 / 12000
   \<and> nextStartTimeRef (cleanup 0 speaking_session) = 1 / 12000
   \<and> audioQueueRef (cleanup 0 speaking_session) = []
   \<and> status (cleanup 0 speaking_session) = Idle"
  by (simp add: cleanup_eq speaking_session_state)

subsection \<open>Tool calls\<close>

lemma dispatched_append: "dispatched (xs @ ys) = dispatched xs @ dispatched ys"
  by (simp add: dispatched_def)
lemma responses_append: "responses (xs @ ys) = responses xs @ responses ys"
  by (simp add: responses_def)
lemma tool_errors_append: "tool_errors (xs @ ys) = tool_errors xs + tool_errors ys"
  by (simp add: tool_errors_def)

lemma tool_loop_Cons:
  "tool_loop H (fc # calls) (s, h) =
     tool_loop H calls
       (emit (case fst (H h (fc_name fc) (fc_args fc)) of
                Inr result \<Rightarrow> SendToolResponse (fc_id fc) (fc_name fc)
                                 (if truthy result then result else JString ''done'')
              | Inl e \<Rightarrow> ConsoleError ''Tool Error'')
          (emit (CallOnToolCall (fc_name fc) (fc_args fc))
             (emit (OnAIResponse (''Running: '' @ fc_name fc)) s)),
        snd (H h (fc_name fc) (fc_args fc)))"
  by (simp add: Let_def split_beta split: sum.splits)


lemma tool_loop_frame:
  "\<exists>tr. fst (tool_loop H calls (s, h)) = s\<lparr>trace := trace s @ tr\<rparr>"
proof (induction calls arbitrary: s h)
  case Nil
  show ?case by (rule exI [of _ "[]"]) simp
next
  case (Cons fc calls)
  define e where "e = (case fst (H h (fc_name fc) (fc_args fc)) of
                Inr result \<Rightarrow> SendToolResponse (fc_id fc) (fc_name fc)
                                 (if truthy result then result else JString ''done'')
              | Inl e \<Rightarrow> ConsoleError ''Tool Error'')"
  define s3 where "s3 = emit e (emit (CallOnToolCall (fc_name fc) (fc_args fc))
             (emit (OnAIResponse (''Running: '' @ fc_name fc)) s))"
  from Cons.IH [of s3 "snd (H h (fc_name fc) (fc_args fc))"] obtain tr where
    "fst (tool_loop H calls (s3, snd (H h (fc_name fc) (fc_args fc)))) = s3\<lparr>trace := trace s3 @ tr\<rparr>" ..
  then have "fst (tool_loop H (fc # calls) (s, h)) =
      s\<lparr>trace := trace s @ ([OnAIResponse (''Running: '' @ fc_name fc),
                               CallOnToolCall (fc_name fc) (fc_args fc), e] @ tr)\<rparr>"
    unfolding tool_loop_Cons e_def [symmetric] s3_def [symmetric]
    by (simp add: s3_def emit_def)
  then show ?case ..
qed









lemma onmessage_tool_call:
  assumes "is_mounted r s"
  shows "onmessage H r t \<lparr>inputTranscription = None, audioData = None, interrupted = False,
                         toolCall = Some calls\<rparr> (s, h) = tool_loop H calls (s, h)"
  using assms by (simp add: onmessage_def audio_branch_def)

lemma onmessage_interrupted:
  assumes "is_mounted r s"
  shows "onmessage H r t \<lparr>inputTranscription = None, audioData = None, interrupted = True,
                         toolCall = None\<rparr> (s, h) = (interrupted_branch s, h)"
  using assms by (simp add: onmessage_def audio_branch_def)

text \<open>
  A message that reports an interruption leaves the queue empty and the accumulator at 0,
  also when it carries speech (enqueued, then flushed at once) or tool calls; the speech it
  carries must decode, since a payload that does not ends the handler before the flush.
\<close>

lemma tool_loop_keeps_scheduler:
  "audioQueueRef (fst (tool_loop H calls (s, h))) = audioQueueRef s
   \<and> nextStartTimeRef (fst (tool_loop H calls (s, h))) = nextStartTimeRef s"
proof -
  from tool_loop_frame [of H calls s h] obtain tr where
    "fst (tool_loop H calls (s, h)) = s\<lparr>trace := trace s @ tr\<rparr>" ..
  then show ?thesis by simp
qed

lemma interruption_message_flushes:
  assumes "is_mounted r s" and "interrupted msg"
    and "audio_branch t msg (case inputTranscription msg of None \<Rightarrow> s
                   | Some text \<Rightarrow> emit (OnUserTranscript text) s) = Inr s2"
  shows "audioQueueRef (fst (onmessage H r t msg (s, h))) = []
       \<and> nextStartTimeRef (fst (onmessage H r t msg (s, h))) = 0"
proof -
  have f: "audioQueueRef (interrupted_branch s2) = []" "nextStartTimeRef (interrupted_branch s2) = 0"
    by (simp_all add: interrupted_branch_def flush_def emit_def stop_each_trace)
  show ?thesis
  proof (cases "toolCall msg")
    case None
    with assms f show ?thesis by (simp add: onmessage_def)
  next
    case (Some calls)
    with assms f tool_loop_keeps_scheduler [of H calls "interrupted_branch s2" h]
    show ?thesis by (simp add: onmessage_def)
  qed
qed

text \<open>A message that carries speech which decodes, and nothing else, schedules the buffer.\<close>

lemma onmessage_speech:
  assumes "is_mounted r s" and "outputContextRef s \<noteq> None" and "payload \<noteq> []"
    and "decode payload = Inr rawBytes" and "decodeAudioData rawBytes 24000 1 = Inr buffer"
  shows "onmessage H r t \<lparr>inputTranscription = None, audioData = Some payload,
                           interrupted = False, toolCall = None\<rparr> (s, h)
           = (schedule_buffer t buffer s, h)"
  using assms by (auto simp: onmessage_def audio_branch_def)

subsection \<open>Activation\<close>

text \<open>
  The guard of \<open>startSession\<close> ignores a call made while the flag is set. But \<open>cleanup\<close>
  clears the flag, and every further call of \<open>startSession\<close> comes from a run of the effect
  that follows the \<open>cleanup\<close> of the run before: with a credential configured, such a call
  is never ignored, whether or not an earlier call is still waiting.
\<close>

lemma startSession_guard:
  "api_key \<noteq> [] \<Longrightarrow> isConnectingRef s \<Longrightarrow> startSession api_key mode r s = s"
  by (simp add: startSession_def)

lemma cleanup_clears_guard: "\<not> isConnectingRef (cleanup r s)"
  by (simp add: cleanup_eq)

lemma rerun_not_ignored:
  assumes "api_key \<noteq> []" and "mounted s \<noteq> []"
  shows "isConnectingRef (rerun_effect api_key True mode s)
       \<and> suspended (rerun_effect api_key True mode s) =
           suspended s @ [AwaitUserMedia (length (mounted s)) mode]"
  using assms
  by (simp add: rerun_effect_def run_effect_def startSession_def cleanup_eq emit_def Let_def)

lemma first_run_state:
  "run_effect ''key'' True ''SUN_DAY'' initial_agent =
     \<lparr>mounted = [True], status = Connecting, sessionRef = None, isConnectingRef = True,
      inputContextRef = None, outputContextRef = None, streamRef = None, processorRef = None,
      nextStartTimeRef = 0, audioQueueRef = [],
      suspended = [AwaitUserMedia 0 ''SUN_DAY''], next_id = 0,
      trace = [OnAIResponse ''Connecting (SUN_DAY)...'', GetUserMedia]\<rparr>"
  by (simp add: run_effect_def startSession_def initial_agent_def emit_def Let_def)

lemma second_run_state:
  "rerun_effect ''key'' True ''NIGHT_BRAIN'' (run_effect ''key'' True ''SUN_DAY'' initial_agent) =
     \<lparr>mounted = [False, True], status = Connecting, sessionRef = None, isConnectingRef = True,
      inputContextRef = None, outputContextRef = None, streamRef = None, processorRef = None,
      nextStartTimeRef = 0, audioQueueRef = [],
      suspended = [AwaitUserMedia 0 ''SUN_DAY'', AwaitUserMedia 1 ''NIGHT_BRAIN''], next_id = 0,
      trace = [OnAIResponse ''Connecting (SUN_DAY)...'', GetUserMedia,
               OnAIResponse ''Connecting (NIGHT_BRAIN)...'', GetUserMedia]\<rparr>"
  unfolding first_run_state
  by (simp add: rerun_effect_def run_effect_def startSession_def cleanup_eq emit_def Let_def)

lemma mode_change_during_setup_state:
  "mode_change_during_setup =
     \<lparr>mounted = [False, True], status = Connecting, sessionRef = Some 7, isConnectingRef = False,
      inputContextRef = Some 5, outputContextRef = Some 6, streamRef = Some 4,
      processorRef = None, nextStartTimeRef = 0, audioQueueRef = [],
      suspended = [], next_id = 8,
      trace = [OnAIResponse ''Connecting (SUN_DAY)...'', GetUserMedia,
               OnAIResponse ''Connecting (NIGHT_BRAIN)...'', GetUserMedia,
               NewAudioContext 1 16000, NewAudioContext 2 24000, LiveConnect 3 ''SUN_DAY'',
               NewAudioContext 5 16000, NewAudioContext 6 24000, LiveConnect 7 ''NIGHT_BRAIN'']\<rparr>"
  by (simp add: mode_change_during_setup_def second_run_state settle_def media_granted_def
      resume_input_def resume_output_def connect_session_def emit_def Let_def)

text \<open>
  Claim C9 (single activation). The session is activated and the first \<open>startSession\<close>
  waits for the microphone, status \<open>connecting\<close>. The mode changes: the effect runs again,
  and its \<open>startSession\<close> is not ignored but asks for the microphone a second time. Once
  both requests are granted there are two capture streams, four audio contexts and two
  sessions. The references hold the second set only, so the \<open>cleanup\<close> that follows
  releases the second set and nothing of the first.
\<close>

theorem second_activation_not_ignored:
  "status (run_effect ''key'' True ''SUN_DAY'' initial_agent) = Connecting
   \<and> suspended (run_effect ''key'' True ''SUN_DAY'' initial_agent) = [AwaitUserMedia 0 ''SUN_DAY'']
   \<and> suspended (rerun_effect ''key'' True ''NIGHT_BRAIN''
                   (run_effect ''key'' True ''SUN_DAY'' initial_agent)) =
        [AwaitUserMedia 0 ''SUN_DAY'', AwaitUserMedia 1 ''NIGHT_BRAIN'']
   \<and> trace mode_change_during_setup =
        [OnAIResponse ''Connecting (SUN_DAY)...'', GetUserMedia,
         OnAIResponse ''Connecting (NIGHT_BRAIN)...'', GetUserMedia,
         NewAudioContext 1 16000, NewAudioContext 2 24000, LiveConnect 3 ''SUN_DAY'',
         NewAudioContext 5 16000, NewAudioContext 6 24000, LiveConnect 7 ''NIGHT_BRAIN'']
   \<and> count_effect is_GetUserMedia mode_change_during_setup = 2
   \<and> count_effect is_NewAudioContext mode_change_during_setup = 4
   \<and> count_effect is_LiveConnect mode_change_during_setup = 2
   \<and> trace (cleanup 1 mode_change_during_setup) =
        trace mode_change_during_setup
          @ [SessionClose 7, TrackStop 4, ContextClose 5, ContextClose 6]"
  apply (subst second_run_state)
  apply (simp add: first_run_state mode_change_during_setup_state cleanup_eq count_effect_def)
  done


section \<open>Properties of the playback engine\<close>

text \<open>
  Claim C10 (seek). For each of the three non-finite numbers \<open>seek\<close> returns at once and
  leaves the service, and so the playback position, as it was; and for every number,
  finite or not, on either kind of engine and in every state of the element, \<open>seek\<close>
  returns without throwing: once metadata is known the setter accepts every finite value,
  and before that a failing assignment is caught and discarded.
\<close>

theorem seek_ignores_non_finite_and_never_throws:
  "seek p NaN s = (None, s) \<and> seek p PosInfinity s = (None, s) \<and> seek p NegInfinity s = (None, s)
   \<and> fst (seek p time s) = None"
  by (cases time) (simp_all add: seek_def set_currentTime_def)


subsection \<open>The restriction flag\<close>

lemma init_flag:
  "isCorsRestricted (init p s) =
     (isCorsRestricted s \<or> (\<not> source s \<and> (audioContext s \<or> ctor_available p) \<and> connect_fails p))"
  by (auto simp: init_def Let_def)

lemma init_others:
  "el_src (init p s) = el_src s \<and> element_src q (init p s) = element_src q s
   \<and> el_crossOrigin (init p s) = el_crossOrigin s
   \<and> journal (init p s) = journal s \<and> has_onError (init p s) = has_onError s
   \<and> el_readyState (init p s) = el_readyState s"
  by (simp add: init_def element_src_def Let_def)

lemma set_currentTime_flag:
  "set_currentTime p t s = Inr s' \<Longrightarrow> isCorsRestricted s' = isCorsRestricted s"
  by (cases t) (auto simp: set_currentTime_def split: if_splits)

lemma safePlay_flag: "isCorsRestricted (safePlay s) = isCorsRestricted s"
  by (simp add: safePlay_def journal_add_def)

lemma seek_flag: "isCorsRestricted (snd (seek p t s)) = isCorsRestricted s"
  by (cases t) (simp_all add: seek_def set_currentTime_def)

lemma setVolume_flag: "isCorsRestricted (snd (setVolume v s)) = isCorsRestricted s"
  by (cases v) (simp_all add: setVolume_def)

lemma play_rejected_flag: "isCorsRestricted (play_rejected e s) = isCorsRestricted s"
  by (simp add: play_rejected_def notify_error_def journal_add_def)

lemma onerror_flag: "isCorsRestricted s \<Longrightarrow> isCorsRestricted (onerror p c s)"
  by (simp add: onerror_def notify_error_def journal_add_def assign_src_def safePlay_def Let_def)

lemma togglePlay_flag: "isCorsRestricted s \<Longrightarrow> isCorsRestricted (togglePlay p s)"
  by (simp add: togglePlay_def safePlay_flag init_flag journal_add_def)

lemma play_state:
  assumes "url \<noteq> []"
  shows "\<exists>s3. isCorsRestricted s3 =
            isCorsRestricted (init p (if take 5 url = ''blob:''
                   then s\<lparr>el_crossOrigin := None\<rparr>
                   else s\<lparr>el_crossOrigin := Some ''anonymous'', isCorsRestricted := False\<rparr>))
          \<and> (snd (play p url st s) = s3 \<or> snd (play p url st s) = safePlay s3
               \<or> (\<exists>t s4. set_currentTime p t s3 = Inr s4 \<and> snd (play p url st s) = safePlay s4))"
proof -
  define s1 where "s1 = (if take 5 url = ''blob:''
                   then s\<lparr>el_crossOrigin := None\<rparr>
                   else s\<lparr>el_crossOrigin := Some ''anonymous'', isCorsRestricted := False\<rparr>)"
  define s3 where "s3 = (if element_src p (init p s1) \<noteq> url
                         then journal_add ElementLoad (assign_src url (init p s1)) else init p s1)"
  have flag: "isCorsRestricted s3 = isCorsRestricted (init p s1)"
    by (simp add: s3_def journal_add_def assign_src_def)
  have eq: "play p url st s =
      (case st of
              None \<Rightarrow> (None, safePlay s3)
            | Some t \<Rightarrow>
                (if positive t
                 then (case set_currentTime p t s3 of
                         Inl e \<Rightarrow> (Some e, s3)
                       | Inr s4 \<Rightarrow> (None, safePlay s4))
                 else (None, safePlay s3)))"
    using assms unfolding play_def s3_def s1_def Let_def by simp
  have "snd (play p url st s) = s3 \<or> snd (play p url st s) = safePlay s3
               \<or> (\<exists>t s4. set_currentTime p t s3 = Inr s4 \<and> snd (play p url st s) = safePlay s4)"
    unfolding eq by (auto split: option.splits sum.splits)
  with flag show ?thesis unfolding s1_def by blast
qed

lemma play_flag:
  assumes "url \<noteq> []"
  shows "isCorsRestricted (snd (play p url st s)) =
     ((take 5 url = ''blob:'' \<and> isCorsRestricted s)
      \<or> (\<not> source s \<and> (audioContext s \<or> ctor_available p) \<and> connect_fails p))"
proof -
  from play_state [OF assms, of p s st] obtain s3 where
    flag: "isCorsRestricted s3 =
            isCorsRestricted (init p (if take 5 url = ''blob:''
                   then s\<lparr>el_crossOrigin := None\<rparr>
                   else s\<lparr>el_crossOrigin := Some ''anonymous'', isCorsRestricted := False\<rparr>))"
    and res: "snd (play p url st s) = s3 \<or> snd (play p url st s) = safePlay s3
               \<or> (\<exists>t s4. set_currentTime p t s3 = Inr s4 \<and> snd (play p url st s) = safePlay s4)"
    by blast
  from res have "isCorsRestricted (snd (play p url st s)) = isCorsRestricted s3"
    by (auto simp: safePlay_flag dest: set_currentTime_flag)
  also have "\<dots> = ((take 5 url = ''blob:'' \<and> isCorsRestricted s)
      \<or> (\<not> source s \<and> (audioContext s \<or> ctor_available p) \<and> connect_fails p))"
    unfolding flag by (auto simp: init_flag)
  finally show ?thesis .
qed

lemma play_empty: "play p [] st s = (None, s)"
  by (simp add: play_def)

lemma skip_flag: "isCorsRestricted (snd (skip p t s)) = isCorsRestricted s"
  by (simp add: skip_def seek_flag)

lemma flag_kept:
  assumes "isCorsRestricted s" "\<not> external_play c"
  shows "isCorsRestricted (apply_call p c s)"
proof (cases c)
  case (Play url st)
  show ?thesis
  proof (cases "url = []")
    case True
    with assms Play show ?thesis by (simp add: play_empty)
  next
    case False
    with assms Play show ?thesis by (simp add: play_flag)
  qed
qed (use assms in \<open>simp_all add: togglePlay_flag seek_flag skip_flag setVolume_flag init_flag
       onerror_flag play_rejected_flag setCallbacks_def\<close>)

lemma flag_kept_run:
  "isCorsRestricted s \<Longrightarrow> \<forall>c \<in> set cs. \<not> external_play c \<Longrightarrow> isCorsRestricted (run_calls p cs s)"
  by (induction cs arbitrary: s) (simp_all add: flag_kept)

lemma flag_set_only:
  assumes "\<not> isCorsRestricted s" "isCorsRestricted (apply_call p c s)"
  shows "is_error_event c \<or> connect_fails p"
proof (cases c)
  case (Play url st)
  show ?thesis
  proof (cases "url = []")
    case True
    with assms Play show ?thesis by (simp add: play_empty)
  next
    case False
    with assms Play show ?thesis by (simp add: play_flag)
  qed
next
  case TogglePlay
  with assms show ?thesis
    by (auto simp: togglePlay_def safePlay_flag init_flag journal_add_def split: if_splits)
qed (use assms in \<open>simp_all add: seek_flag skip_flag setVolume_flag init_flag play_rejected_flag
       setCallbacks_def\<close>)

lemma network_track_state:
  "network_track =
     \<lparr>audioContext = True, source = True, isCorsRestricted = False,
      el_src = Some ''https://example.org/a.mp3'', el_crossOrigin = Some ''anonymous'',
      el_currentTime = 0, el_duration = 0, el_readyState = 0,
      el_paused = False, el_volume = 1, has_onError = True,
      journal = [SetSrc ''https://example.org/a.mp3'', ElementLoad, ElementPlay]\<rparr>"
  by (simp add: network_track_def play_def new_service_def setCallbacks_def modern_def init_def
      element_src_def assign_src_def journal_add_def safePlay_def Let_def)

lemma restricted_service_state:
  "restricted_service =
     \<lparr>audioContext = True, source = True, isCorsRestricted = True,
      el_src = Some ''https://example.org/a.mp3'', el_crossOrigin = None,
      el_currentTime = 0, el_duration = 0, el_readyState = 0,
      el_paused = False, el_volume = 1, has_onError = True,
      journal =
        [SetSrc ''https://example.org/a.mp3'', ElementLoad, ElementPlay,
         SetSrc [], SetSrc ''https://example.org/a.mp3'', ElementPlay]\<rparr>"
  by (simp add: restricted_service_def network_track_state onerror_def element_src_def modern_def
      assign_src_def journal_add_def safePlay_def Let_def)


text \<open>
  Claim C8 (persistence of the restriction flag), as stated: the service has gone
  through the recovery and the flag is set; \<open>play\<close> is then called with another network
  URL, and the flag is cleared.
\<close>

theorem cors_flag_reset_by_play:
  "isCorsRestricted restricted_service
   \<and> \<not> isCorsRestricted (snd (play modern ''https://example.org/b.mp3'' None restricted_service))"
  by (simp add: play_flag) (simp add: restricted_service_state modern_def)


text \<open>
  Claim C8, amended. Once set, the flag stays set under every sequence of calls and events
  (seek, skip, volume, toggle, \<open>init\<close>, \<open>setCallbacks\<close>, error events, rejected \<open>play()\<close> promises,
  \<open>play\<close> with an empty URL or a \<open>blob:\<close> reference) that contains no call of \<open>play\<close>
  with a non-empty URL other than a \<open>blob:\<close> reference. Such a call clears the flag before
  it runs \<open>init\<close>: afterwards the flag is set exactly if \<open>init\<close> tried to connect the
  analyser and failed. The flag is set only by the recovery of the error handler, or by
  \<open>init\<close> when connecting the analyser fails.
\<close>

theorem cors_flag_lifetime:
  "(isCorsRestricted s \<and> (\<forall>c \<in> set cs. \<not> external_play c) \<longrightarrow> isCorsRestricted (run_calls p cs s))
   \<and> (url \<noteq> [] \<and> take 5 url \<noteq> ''blob:'' \<longrightarrow>
        isCorsRestricted (snd (play p url st s')) =
          (\<not> source s' \<and> (audioContext s' \<or> ctor_available p) \<and> connect_fails p))
   \<and> (\<not> isCorsRestricted s'' \<and> isCorsRestricted (apply_call p c s'') \<longrightarrow>
        is_error_event c \<or> connect_fails p)"
  using flag_kept_run [of s cs p] play_flag [of url p st s'] flag_set_only [of s'' p c]
  by blast

theorem cors_flag_lifetime_witness:
  "isCorsRestricted
     (run_calls modern [Seek (Num 3), SetVolume (Num 2), TogglePlay, Play ''blob:1'' None,
                        ErrorEvent 4, PlayRejected AbortError] restricted_service)
   \<and> \<not> isCorsRestricted (snd (play modern ''https://example.org/c.mp3'' (Some (Num 5)) restricted_service))
   \<and> isCorsRestricted (apply_call modern (ErrorEvent 4) network_track)"
proof -
  have a: "isCorsRestricted restricted_service" "source restricted_service"
    by (simp_all add: restricted_service_state)
  have b: "\<not> isCorsRestricted network_track" "isCorsRestricted (apply_call modern (ErrorEvent 4) network_track)"
    by (simp_all add: network_track_state onerror_def element_src_def modern_def assign_src_def
        journal_add_def safePlay_def Let_def)
  from cors_flag_lifetime [of restricted_service
      "[Seek (Num 3), SetVolume (Num 2), TogglePlay, Play ''blob:1'' None, ErrorEvent 4, PlayRejected AbortError]"
      modern "''https://example.org/c.mp3''" "Some (Num 5)" restricted_service network_track "ErrorEvent 4"]
  show ?thesis using a b by simp
qed


subsection \<open>Recovery from a playback error\<close>

lemma notify_error_eq:
  "notify_error r s = s\<lparr>journal := journal s @ (if has_onError s then [CallOnError r] else [])\<rparr>"
  by (simp add: notify_error_def journal_add_def)

text \<open>What a run of error events and rejected promises has passed to \<open>onError\<close>.\<close>

lemma feedback_step:
  assumes "is_feedback c" "el_crossOrigin s = None"
  shows "\<exists>js. apply_call p c s = s\<lparr>journal := journal s @ js\<rparr> \<and> ElementPlay \<notin> set js
           \<and> (has_onError s \<longrightarrow>
                (\<forall>code. c = ErrorEvent code \<longrightarrow> CallOnError (MediaError code) \<in> set js)
              \<and> (\<forall>e. c = PlayRejected e \<and> e \<noteq> NotAllowedError \<and> e \<noteq> AbortError \<longrightarrow>
                     CallOnError (PlayError e) \<in> set js))"
proof (cases c)
  case (ErrorEvent code)
  have "apply_call p c s = s\<lparr>journal := journal s @ (if has_onError s then [CallOnError (MediaError code)] else [])\<rparr>"
    using assms(2) by (simp add: ErrorEvent onerror_def notify_error_eq)
  then show ?thesis using ErrorEvent
    by (intro exI [of _ "if has_onError s then [CallOnError (MediaError code)] else []"]) simp
next
  case (PlayRejected e)
  have "apply_call p c s = s\<lparr>journal := journal s @
          (if e \<noteq> NotAllowedError \<and> e \<noteq> AbortError \<and> has_onError s then [CallOnError (PlayError e)] else [])\<rparr>"
    by (simp add: PlayRejected play_rejected_def notify_error_eq)
  then show ?thesis using PlayRejected
    by (intro exI [of _ "if e \<noteq> NotAllowedError \<and> e \<noteq> AbortError \<and> has_onError s
                         then [CallOnError (PlayError e)] else []"]) simp
qed (use assms in simp_all)

lemma feedback_run:
  assumes "\<forall>c \<in> set evs. is_feedback c" "el_crossOrigin s = None"
  shows "\<exists>js. run_calls p evs s = s\<lparr>journal := journal s @ js\<rparr> \<and> ElementPlay \<notin> set js
           \<and> (has_onError s \<longrightarrow>
                (\<forall>code. ErrorEvent code \<in> set evs \<longrightarrow> CallOnError (MediaError code) \<in> set js)
              \<and> (\<forall>e. PlayRejected e \<in> set evs \<and> e \<noteq> NotAllowedError \<and> e \<noteq> AbortError \<longrightarrow>
                     CallOnError (PlayError e) \<in> set js))"
  using assms
proof (induction evs arbitrary: s)
  case Nil
  show ?case by (rule exI [of _ "[]"]) simp
next
  case (Cons c evs)
  from Cons.prems have fb: "is_feedback c" and rest: "\<forall>c \<in> set evs. is_feedback c" by simp_all
  from feedback_step [OF fb Cons.prems(2), of p] obtain js1 where
    s1: "apply_call p c s = s\<lparr>journal := journal s @ js1\<rparr>" and n1: "ElementPlay \<notin> set js1"
    and e1: "has_onError s \<longrightarrow>
               (\<forall>code. c = ErrorEvent code \<longrightarrow> CallOnError (MediaError code) \<in> set js1)
             \<and> (\<forall>e. c = PlayRejected e \<and> e \<noteq> NotAllowedError \<and> e \<noteq> AbortError \<longrightarrow>
                    CallOnError (PlayError e) \<in> set js1)"
    by blast
  have co: "el_crossOrigin (apply_call p c s) = None" using Cons.prems(2) by (simp add: s1)
  from Cons.IH [OF rest co] obtain js2 where
    s2: "run_calls p evs (apply_call p c s) = (apply_call p c s)\<lparr>journal := journal (apply_call p c s) @ js2\<rparr>"
    and n2: "ElementPlay \<notin> set js2"
    and e2: "has_onError (apply_call p c s) \<longrightarrow>
               (\<forall>code. ErrorEvent code \<in> set evs \<longrightarrow> CallOnError (MediaError code) \<in> set js2)
             \<and> (\<forall>e. PlayRejected e \<in> set evs \<and> e \<noteq> NotAllowedError \<and> e \<noteq> AbortError \<longrightarrow>
                    CallOnError (PlayError e) \<in> set js2)"
    by blast
  have ho: "has_onError (apply_call p c s) = has_onError s" by (simp add: s1)
  have "run_calls p (c # evs) s = s\<lparr>journal := journal s @ (js1 @ js2)\<rparr>"
    by (simp add: s2) (simp add: s1)
  moreover have "ElementPlay \<notin> set (js1 @ js2)" using n1 n2 by simp
  moreover have "has_onError s \<longrightarrow>
                   (\<forall>code. ErrorEvent code \<in> set (c # evs) \<longrightarrow>
                      CallOnError (MediaError code) \<in> set (js1 @ js2))
                 \<and> (\<forall>e. PlayRejected e \<in> set (c # evs) \<and> e \<noteq> NotAllowedError \<and> e \<noteq> AbortError \<longrightarrow>
                        CallOnError (PlayError e) \<in> set (js1 @ js2))"
    using e1 e2 unfolding ho by auto
  ultimately show ?case by blast
qed

lemma onerror_recovery:
  assumes "element_src p s \<noteq> []" "el_crossOrigin s = Some ''anonymous''"
  shows "onerror p code s =
           s\<lparr>el_src := Some (element_src p s), el_crossOrigin := None, isCorsRestricted := True,
             el_readyState := 0, el_paused := False,
             journal := journal s @ [SetSrc [], SetSrc (element_src p s), ElementPlay]\<rparr>"
  using assms
  by (simp add: onerror_def element_src_def assign_src_def journal_add_def safePlay_def Let_def)


text \<open>
  Claim C6 (recovery from a cross-origin fault), with \<open>onError\<close> registered. When the error
  event fires while a source is loaded and \<open>crossOrigin\<close> is \<open>anonymous\<close>, the handler
  sets \<open>crossOrigin\<close> to null, sets the restriction flag, assigns the empty string and
  then the same source again (the address that the element reports, which reads back the
  same when serialized addresses resolve to themselves), and calls \<open>play()\<close> once.
  Whatever error events and rejected promises follow, \<open>play()\<close> is not called again, every
  further error event is passed to \<open>onError\<close>, and so is every rejection other than
  \<open>NotAllowedError\<close> and \<open>AbortError\<close>. When the error fires while \<open>crossOrigin\<close> is not
  \<open>anonymous\<close> (or no source is loaded), the error is passed to \<open>onError\<close> and nothing else
  changes.
\<close>

theorem cors_fault_recovery:
  assumes "has_onError s"
  shows "(element_src p s \<noteq> [] \<and> el_crossOrigin s = Some ''anonymous'' \<longrightarrow>
            el_crossOrigin (onerror p code s) = None \<and> isCorsRestricted (onerror p code s)
          \<and> el_src (onerror p code s) = Some (element_src p s)
          \<and> (resolve_url p (element_src p s) = element_src p s \<longrightarrow>
                element_src p (onerror p code s) = element_src p s)
          \<and> journal (onerror p code s) = journal s @ [SetSrc [], SetSrc (element_src p s), ElementPlay]
          \<and> ((\<forall>c \<in> set evs. is_feedback c) \<longrightarrow>
                plays (run_calls p evs (onerror p code s)) = plays s + 1
              \<and> (\<forall>code'. ErrorEvent code' \<in> set evs \<longrightarrow>
                    CallOnError (MediaError code') \<in> set (journal (run_calls p evs (onerror p code s))))
              \<and> (\<forall>e. PlayRejected e \<in> set evs \<and> e \<noteq> NotAllowedError \<and> e \<noteq> AbortError \<longrightarrow>
                    CallOnError (PlayError e) \<in> set (journal (run_calls p evs (onerror p code s))))))
       \<and> (\<not> (element_src p s \<noteq> [] \<and> el_crossOrigin s = Some ''anonymous'') \<longrightarrow>
            onerror p code s = s\<lparr>journal := journal s @ [CallOnError (MediaError code)]\<rparr>)"
proof (intro conjI impI)
  assume a: "element_src p s \<noteq> [] \<and> el_crossOrigin s = Some ''anonymous''"
  then have rec: "onerror p code s =
           s\<lparr>el_src := Some (element_src p s), el_crossOrigin := None, isCorsRestricted := True,
             el_readyState := 0, el_paused := False,
             journal := journal s @ [SetSrc [], SetSrc (element_src p s), ElementPlay]\<rparr>"
    by (simp add: onerror_recovery)
  show "el_crossOrigin (onerror p code s) = None" "isCorsRestricted (onerror p code s)"
    "el_src (onerror p code s) = Some (element_src p s)"
    "journal (onerror p code s) = journal s @ [SetSrc [], SetSrc (element_src p s), ElementPlay]"
    by (simp_all add: rec)
  {
    assume "resolve_url p (element_src p s) = element_src p s"
    then show "element_src p (onerror p code s) = element_src p s"
      unfolding rec by (simp add: element_src_def)
  }
  assume fb: "\<forall>c \<in> set evs. is_feedback c"
  have co: "el_crossOrigin (onerror p code s) = None" by (simp add: rec)
  have ho: "has_onError (onerror p code s)" using assms by (simp add: rec)
  from feedback_run [OF fb co, of p] ho obtain js where
    run: "run_calls p evs (onerror p code s) = (onerror p code s)\<lparr>journal := journal (onerror p code s) @ js\<rparr>"
    and np: "ElementPlay \<notin> set js"
    and su: "\<forall>code'. ErrorEvent code' \<in> set evs \<longrightarrow> CallOnError (MediaError code') \<in> set js"
    and sr: "\<forall>e. PlayRejected e \<in> set evs \<and> e \<noteq> NotAllowedError \<and> e \<noteq> AbortError \<longrightarrow>
                CallOnError (PlayError e) \<in> set js"
    by blast
  from np have "filter (\<lambda>e. e = ElementPlay) js = []" by (induction js) auto
  then show "plays (run_calls p evs (onerror p code s)) = plays s + 1"
    by (simp add: run plays_def) (simp add: rec)
  show "\<forall>code'. ErrorEvent code' \<in> set evs \<longrightarrow>
          CallOnError (MediaError code') \<in> set (journal (run_calls p evs (onerror p code s)))"
    using su by (simp add: run)
  show "\<forall>e. PlayRejected e \<in> set evs \<and> e \<noteq> NotAllowedError \<and> e \<noteq> AbortError \<longrightarrow>
          CallOnError (PlayError e) \<in> set (journal (run_calls p evs (onerror p code s)))"
    using sr by (simp add: run)
next
  assume "\<not> (element_src p s \<noteq> [] \<and> el_crossOrigin s = Some ''anonymous'')"
  then show "onerror p code s = s\<lparr>journal := journal s @ [CallOnError (MediaError code)]\<rparr>"
    using assms by (auto simp: onerror_def notify_error_eq)
qed

theorem cors_fault_recovery_witness:
  "plays network_track = 1
   \<and> element_src modern (onerror modern 4 network_track) = ''https://example.org/a.mp3''
   \<and> plays (run_calls modern [ErrorEvent 4, PlayRejected NotSupportedError, ErrorEvent 2]
              (onerror modern 4 network_track)) = 2
   \<and> CallOnError (MediaError 2)
        \<in> set (journal (run_calls modern [ErrorEvent 4, PlayRejected NotSupportedError, ErrorEvent 2]
                                   (onerror modern 4 network_track)))
   \<and> CallOnError (PlayError NotSupportedError)
        \<in> set (journal (run_calls modern [ErrorEvent 4, PlayRejected NotSupportedError, ErrorEvent 2]
                                   (onerror modern 4 network_track)))
   \<and> onerror modern 3 restricted_service
       = restricted_service\<lparr>journal := journal restricted_service @ [CallOnError (MediaError 3)]\<rparr>"
proof -
  have h: "has_onError network_track"
    "element_src modern network_track = ''https://example.org/a.mp3''"
    "resolve_url modern ''https://example.org/a.mp3'' = ''https://example.org/a.mp3''"
    "el_crossOrigin network_track = Some ''anonymous''" "plays network_track = 1"
    by (simp_all add: network_track_state plays_def element_src_def modern_def)
  have r: "has_onError restricted_service" "el_crossOrigin restricted_service = None"
    by (simp_all add: restricted_service_state)
  from cors_fault_recovery [OF h(1), of modern 4 "[ErrorEvent 4, PlayRejected NotSupportedError, ErrorEvent 2]"]
    cors_fault_recovery [OF r(1), of modern 3 "[]"]
  show ?thesis using h r by simp
qed

end
